theory Spec2Isabelle
  imports Main "HOL-Library.AList"
begin

section \<open>Python strings\<close>

text \<open>
  A Python \<open>str\<close> exchanged with the completion service (a prompt, a completion) is a
  \<open>string\<close>: one \<open>char\<close> per code point, so the model covers the code points 0 to 255.
  Indices count code points, as \<open>len\<close>, \<open>find\<close> and slicing do in Python.
\<close>

definition py_startswith :: "string \<Rightarrow> string \<Rightarrow> bool" where
  "py_startswith s sub = (take (length sub) s = sub)"

text \<open>The lowest index at which \<open>sub\<close> occurs in \<open>s\<close>, if any.\<close>

fun find_first :: "string \<Rightarrow> string \<Rightarrow> nat option" where
  "find_first sub [] = (if sub = [] then Some 0 else None)"
| "find_first sub (c # cs) =
     (if py_startswith (c # cs) sub then Some 0 else map_option Suc (find_first sub cs))"

text \<open>The highest index at which \<open>sub\<close> occurs in \<open>s\<close>, if any.\<close>

fun find_last :: "string \<Rightarrow> string \<Rightarrow> nat option" where
  "find_last sub [] = (if sub = [] then Some 0 else None)"
| "find_last sub (c # cs) =
     (case find_last sub cs of
        Some i \<Rightarrow> Some (Suc i)
      | None \<Rightarrow> if py_startswith (c # cs) sub then Some 0 else None)"

text \<open>\<open>sub in s\<close>\<close>

definition py_in :: "string \<Rightarrow> string \<Rightarrow> bool" where
  "py_in sub s = (find_first sub s \<noteq> None)"

text \<open>
  \<open>s.find(sub, start)\<close>: the lowest index from \<open>start\<close> on, or \<open>-1\<close>. A negative
  \<open>start\<close> counts from the end; past the end nothing is found.
\<close>

definition py_find :: "string \<Rightarrow> string \<Rightarrow> int \<Rightarrow> int" where
  "py_find s sub start =
     (let lo = (if start < 0 then nat (max (int (length s) + start) 0) else nat start)
      in if length s < lo then - 1
         else case find_first sub (drop lo s) of
                None \<Rightarrow> - 1
              | Some i \<Rightarrow> int (lo + i))"

text \<open>\<open>s.rfind(sub)\<close>: an index, or \<open>-1\<close>.\<close>

definition py_rfind :: "string \<Rightarrow> string \<Rightarrow> int" where
  "py_rfind s sub = (case find_last sub s of None \<Rightarrow> - 1 | Some i \<Rightarrow> int i)"

text \<open>
  A bound of a slice \<open>s[a:b]\<close>: a negative bound counts from the end, and every bound is
  clipped to \<open>0 .. len(s)\<close>.
\<close>

definition slice_bound :: "nat \<Rightarrow> int \<Rightarrow> nat" where
  "slice_bound n i = (if i < 0 then nat (max (int n + i) 0) else min (nat i) n)"

definition py_slice :: "string \<Rightarrow> int \<Rightarrow> int \<Rightarrow> string" where
  "py_slice s a b =
     (let lo = slice_bound (length s) a; hi = slice_bound (length s) b
      in take (hi - lo) (drop lo s))"

text \<open>
  \<open>str.isspace\<close> on one code point below 256: tab to carriage return, the separators
  0x1C to 0x1F, space, NEL (0x85) and the no-break space (0xA0).
\<close>

definition py_isspace :: "char \<Rightarrow> bool" where
  "py_isspace c =
     (let n = (of_char c :: nat)
      in (9 \<le> n \<and> n \<le> 13) \<or> (28 \<le> n \<and> n \<le> 32) \<or> n = 133 \<or> n = 160)"

definition py_strip :: "string \<Rightarrow> string" where
  "py_strip s = rev (dropWhile py_isspace (rev (dropWhile py_isspace s)))"

fun py_join :: "string \<Rightarrow> string list \<Rightarrow> string" where
  "py_join sep [] = []"
| "py_join sep [x] = x"
| "py_join sep (x # y # ys) = x @ sep @ py_join sep (y # ys)"

text \<open>\<open>str(n)\<close> for an integer: decimal digits, with a minus sign when negative.\<close>

definition digit_char :: "nat \<Rightarrow> char" where
  "digit_char d = char_of (48 + d)"

function dec_nat :: "nat \<Rightarrow> string" where
  "dec_nat n = (if n < 10 then [digit_char n] else dec_nat (n div 10) @ [digit_char (n mod 10)])"
  by pat_completeness auto
termination
  by (relation "measure id") auto

declare dec_nat.simps [simp del]

definition py_str_int :: "int \<Rightarrow> string" where
  "py_str_int i = (if i < 0 then CHR ''-'' # dec_nat (nat (- i)) else dec_nat (nat i))"


section \<open>The \<open>json\<close> module: values and \<open>json.dumps\<close>\<close>

text \<open>
  A decoded JSON string can hold any code point (through a \<open>\u\<close> escape), so the strings
  inside a JSON value are lists of code points. \<open>JFloat l\<close> is the float that Python's
  \<open>float\<close> builds from the literal \<open>l\<close>; floating-point arithmetic is not modelled, so
  the encoder takes the function that prints a float as its first argument.
  An object is the list of its items in insertion order.
\<close>

type_synonym ustr = "nat list"

abbreviation (input) ustr :: "string \<Rightarrow> ustr" where
  "ustr s \<equiv> map of_char s"

datatype json =
    JNull
  | JBool bool
  | JInt int
  | JFloat string
  | JString ustr
  | JArray "json list"
  | JObject "(ustr \<times> json) list"

definition hex_char :: "nat \<Rightarrow> char" where
  "hex_char d = (if d < 10 then char_of (48 + d) else char_of (87 + d))"

definition hex4 :: "nat \<Rightarrow> string" where
  "hex4 n = [hex_char (n div 4096 mod 16), hex_char (n div 256 mod 16),
             hex_char (n div 16 mod 16), hex_char (n mod 16)]"

text \<open>
  One code point of a string under \<open>ensure_ascii=True\<close>: the short escapes, the printable
  ASCII characters as they are, \<open>\uXXXX\<close> for the rest of the basic plane and a surrogate
  pair above it.
\<close>

definition escape_char :: "nat \<Rightarrow> string" where
  "escape_char n =
     (if n = 0x22 then [CHR 0x5C, CHR 0x22]
      else if n = 0x5C then [CHR 0x5C, CHR 0x5C]
      else if n = 0x0A then [CHR 0x5C, CHR ''n'']
      else if n = 0x0D then [CHR 0x5C, CHR ''r'']
      else if n = 0x09 then [CHR 0x5C, CHR ''t'']
      else if n = 0x08 then [CHR 0x5C, CHR ''b'']
      else if n = 0x0C then [CHR 0x5C, CHR ''f'']
      else if 0x20 \<le> n \<and> n \<le> 0x7E then [char_of n]
      else if n < 0x10000 then [CHR 0x5C, CHR ''u''] @ hex4 n
      else let v = n - 0x10000
           in [CHR 0x5C, CHR ''u''] @ hex4 (0xD800 + v div 1024 mod 1024) @
              [CHR 0x5C, CHR ''u''] @ hex4 (0xDC00 + v mod 1024))"

definition encode_basestring_ascii :: "ustr \<Rightarrow> string" where
  "encode_basestring_ascii s = CHR 0x22 # concat (map escape_char s) @ [CHR 0x22]"

text \<open>
  \<open>json.dumps(v)\<close> with the default separators \<open>', '\<close> and \<open>': '\<close>. \<open>float_repr\<close> prints
  a float (\<open>NaN\<close>, \<open>Infinity\<close>, \<open>-Infinity\<close> or \<open>float.__repr__\<close>).
\<close>

fun json_dumps :: "(string \<Rightarrow> string) \<Rightarrow> json \<Rightarrow> string" where
  "json_dumps float_repr JNull = ''null''"
| "json_dumps float_repr (JBool b) = (if b then ''true'' else ''false'')"
| "json_dumps float_repr (JInt i) = py_str_int i"
| "json_dumps float_repr (JFloat l) = float_repr l"
| "json_dumps float_repr (JString s) = encode_basestring_ascii s"
| "json_dumps float_repr (JArray vs) =
     ''['' @ py_join '', '' (map (json_dumps float_repr) vs) @ '']''"
| "json_dumps float_repr (JObject ps) =
     ''{'' @ py_join '', ''
       (map (\<lambda>p. encode_basestring_ascii (fst p) @ '': '' @ json_dumps float_repr (snd p)) ps) @
     ''}''"


section \<open>The \<open>json\<close> module: \<open>json.loads\<close>\<close>

datatype py_error =
    ServiceError
  | KeyError string
  | JSONDecodeError
  | GraphRecursionError
  | GraphError

text \<open>
  The decoder follows the scanner of the \<open>json\<close> module: \<open>scan_once\<close> reads one value
  at the head of the text and returns it with the text that follows it, \<open>None\<close> where
  the module raises \<open>JSONDecodeError\<close>. Not modelled: the recursion limit on deeply
  nested values and the limit on the number of digits of an integer.
\<close>

definition json_ws :: "char \<Rightarrow> bool" where
  "json_ws c = (c = CHR '' '' \<or> c = CHR 0x09 \<or> c = CHR 0x0A \<or> c = CHR 0x0D)"

definition skip_ws :: "string \<Rightarrow> string" where
  "skip_ws s = dropWhile json_ws s"

definition is_digit :: "char \<Rightarrow> bool" where
  "is_digit c = (48 \<le> (of_char c :: nat) \<and> (of_char c :: nat) \<le> 57)"

definition hex_value :: "char \<Rightarrow> nat option" where
  "hex_value c =
     (let n = (of_char c :: nat)
      in if 48 \<le> n \<and> n \<le> 57 then Some (n - 48)
         else if 97 \<le> n \<and> n \<le> 102 then Some (n - 87)
         else if 65 \<le> n \<and> n \<le> 70 then Some (n - 55)
         else None)"

definition hex4_value :: "string \<Rightarrow> nat option" where
  "hex4_value s =
     (case s of
        [a, b, c, d] \<Rightarrow>
          (case (hex_value a, hex_value b, hex_value c, hex_value d) of
             (Some x, Some y, Some z, Some w) \<Rightarrow> Some (((x * 16 + y) * 16 + z) * 16 + w)
           | _ \<Rightarrow> None)
      | _ \<Rightarrow> None)"

definition backslash :: "char \<Rightarrow> nat option" where
  "backslash e =
     (if e = CHR 0x22 then Some 0x22
      else if e = CHR 0x5C then Some 0x5C
      else if e = CHR ''/'' then Some 0x2F
      else if e = CHR ''b'' then Some 0x08
      else if e = CHR ''f'' then Some 0x0C
      else if e = CHR ''n'' then Some 0x0A
      else if e = CHR ''r'' then Some 0x0D
      else if e = CHR ''t'' then Some 0x09
      else None)"

text \<open>
  \<open>scanstring\<close> reads a string after its opening quote (strict mode: a control
  character ends the parse): the escapes of \<open>backslash\<close>, \<open>\uXXXX\<close>, and a high surrogate
  followed by a low one as one code point.
\<close>

definition str_cons :: "nat \<Rightarrow> (ustr \<times> string) option \<Rightarrow> (ustr \<times> string) option" where
  "str_cons n r = (case r of None \<Rightarrow> None | Some (s, rest) \<Rightarrow> Some (n # s, rest))"

function scanstring :: "string \<Rightarrow> (ustr \<times> string) option" where
  "scanstring [] = None"
| "scanstring (c # cs) =
     (if c = CHR 0x22 then Some ([], cs)
      else if c = CHR 0x5C then
        (case cs of
           [] \<Rightarrow> None
         | e # es \<Rightarrow>
             if e = CHR ''u'' then
               (case hex4_value (take 4 es) of
                  None \<Rightarrow> None
                | Some uni \<Rightarrow>
                    if 0xD800 \<le> uni \<and> uni \<le> 0xDBFF \<and>
                       py_startswith (drop 4 es) [CHR 0x5C, CHR ''u'']
                    then
                      (case hex4_value (take 4 (drop 6 es)) of
                         None \<Rightarrow> None
                       | Some uni2 \<Rightarrow>
                           if 0xDC00 \<le> uni2 \<and> uni2 \<le> 0xDFFF
                           then str_cons (0x10000 + ((uni - 0xD800) * 1024 + (uni2 - 0xDC00)))
                                  (scanstring (drop 10 es))
                           else str_cons uni (scanstring (drop 4 es)))
                    else str_cons uni (scanstring (drop 4 es)))
             else (case backslash e of
                     None \<Rightarrow> None
                   | Some n \<Rightarrow> str_cons n (scanstring es)))
      else if (of_char c :: nat) < 0x20 then None
      else str_cons (of_char c) (scanstring cs))"
  by pat_completeness auto
termination
  by (relation "measure length") auto

definition nat_of_digits :: "string \<Rightarrow> nat" where
  "nat_of_digits ds = foldl (\<lambda>a c. 10 * a + (of_char c - 48)) 0 ds"

text \<open>
  A number: \<open>-?(0|[1-9][0-9]*)(\.[0-9]+)?([eE][-+]?[0-9]+)?\<close>, the longest match. Without
  fraction and exponent it is an \<open>int\<close>, else a float.
\<close>

definition scan_int_part :: "string \<Rightarrow> (string \<times> string) option" where
  "scan_int_part s =
     (case s of
        [] \<Rightarrow> None
      | c # cs \<Rightarrow>
          if c = CHR ''0'' then Some ([c], cs)
          else if is_digit c then Some (c # takeWhile is_digit cs, dropWhile is_digit cs)
          else None)"

definition scan_frac :: "string \<Rightarrow> string \<times> string" where
  "scan_frac s =
     (case s of
        c # d # ds \<Rightarrow>
          if c = CHR ''.'' \<and> is_digit d
          then (c # d # takeWhile is_digit ds, dropWhile is_digit ds)
          else ([], s)
      | _ \<Rightarrow> ([], s))"

definition scan_exp :: "string \<Rightarrow> string \<times> string" where
  "scan_exp s =
     (case s of
        [] \<Rightarrow> ([], s)
      | e # t \<Rightarrow>
          if e = CHR ''e'' \<or> e = CHR ''E'' then
            (let sign = (case t of
                           [] \<Rightarrow> []
                         | g # u \<Rightarrow> if g = CHR ''-'' \<or> g = CHR ''+'' then [g] else []);
                 u = drop (length sign) t
             in if takeWhile is_digit u = [] then ([], s)
                else (e # sign @ takeWhile is_digit u, dropWhile is_digit u))
          else ([], s))"

definition match_number :: "string \<Rightarrow> (json \<times> string) option" where
  "match_number s =
     (let neg = (case s of [] \<Rightarrow> False | c # cs \<Rightarrow> c = CHR ''-'');
          s1 = (if neg then tl s else s)
      in case scan_int_part s1 of
           None \<Rightarrow> None
         | Some (digits, s2) \<Rightarrow>
             (let (frac, s3) = scan_frac s2;
                  (ex, s4) = scan_exp s3
              in if frac = [] \<and> ex = []
                 then Some (JInt (if neg then - int (nat_of_digits digits)
                                  else int (nat_of_digits digits)), s4)
                 else Some (JFloat ((if neg then ''-'' else '''') @ digits @ frac @ ex), s4)))"

text \<open>
  \<open>dict(pairs)\<close>: a key that comes again keeps its place and takes the later value.
\<close>

definition dict :: "(ustr \<times> json) list \<Rightarrow> (ustr \<times> json) list" where
  "dict pairs = foldl (\<lambda>d p. AList.update (fst p) (snd p) d) [] pairs"

lemma skip_ws_length: "length (skip_ws s) \<le> length s"
  by (simp add: skip_ws_def length_dropWhile_le)

lemma skip_ws_Cons_length: "skip_ws s = d # ds \<Longrightarrow> length (skip_ws ds) < length s"
  using skip_ws_length [of s] skip_ws_length [of ds] by simp

lemma str_cons_Some: "str_cons n r = Some (s, rest) \<Longrightarrow> \<exists>s'. r = Some (s', rest) \<and> s = n # s'"
  by (auto simp: str_cons_def split: option.splits)

lemma scanstring_length: "scanstring t = Some (key, r) \<Longrightarrow> length r < length t"
proof (induction t arbitrary: key r rule: scanstring.induct)
  case 1
  then show ?case by simp
next
  case (2 c cs)
  show ?case
    using "2.prems" "2.IH"
    by (fastforce simp: less_Suc_eq split: if_splits list.splits option.splits dest!: str_cons_Some)
qed

text \<open>
  \<open>parse_array\<close> and \<open>parse_object\<close> are the loops over the items, entered at the
  first item. A loop goes on only after its item has consumed some text
  (\<open>length rest < length s\<close>), which every item does (\<open>scan_length\<close>,
  \<open>parse_array_unguarded\<close>, \<open>parse_object_unguarded\<close>).
\<close>

function scan_once :: "string \<Rightarrow> (json \<times> string) option"
  and parse_array :: "string \<Rightarrow> (json list \<times> string) option"
  and parse_object :: "string \<Rightarrow> ((ustr \<times> json) list \<times> string) option" where
  "scan_once s =
     (case s of
        [] \<Rightarrow> None
      | c # cs \<Rightarrow>
          if c = CHR 0x22 then
            (case scanstring cs of
               None \<Rightarrow> None
             | Some (str, rest) \<Rightarrow> Some (JString str, rest))
          else if c = CHR ''{'' then
            (case skip_ws cs of
               [] \<Rightarrow> None
             | d # ds \<Rightarrow>
                 if d = CHR ''}'' then Some (JObject [], ds)
                 else (case parse_object (d # ds) of
                         None \<Rightarrow> None
                       | Some (pairs, rest) \<Rightarrow> Some (JObject (dict pairs), rest)))
          else if c = CHR ''['' then
            (case skip_ws cs of
               [] \<Rightarrow> None
             | d # ds \<Rightarrow>
                 if d = CHR '']'' then Some (JArray [], ds)
                 else (case parse_array (d # ds) of
                         None \<Rightarrow> None
                       | Some (vals, rest) \<Rightarrow> Some (JArray vals, rest)))
          else if py_startswith s ''null'' then Some (JNull, drop 4 s)
          else if py_startswith s ''true'' then Some (JBool True, drop 4 s)
          else if py_startswith s ''false'' then Some (JBool False, drop 5 s)
          else if py_startswith s ''NaN'' then Some (JFloat ''NaN'', drop 3 s)
          else if py_startswith s ''Infinity'' then Some (JFloat ''Infinity'', drop 8 s)
          else if py_startswith s ''-Infinity'' then Some (JFloat ''-Infinity'', drop 9 s)
          else match_number s)"
| "parse_array s =
     (case scan_once s of
        None \<Rightarrow> None
      | Some (val, rest) \<Rightarrow>
          if length rest < length s then
            (case skip_ws rest of
               [] \<Rightarrow> None
             | d # ds \<Rightarrow>
                 if d = CHR '']'' then Some ([val], ds)
                 else if d = CHR '','' then
                   (case parse_array (skip_ws ds) of
                      None \<Rightarrow> None
                    | Some (vals, rest') \<Rightarrow> Some (val # vals, rest'))
                 else None)
          else None)"
| "parse_object s =
     (case s of
        [] \<Rightarrow> None
      | q # t \<Rightarrow>
          if q \<noteq> CHR 0x22 then None
          else (case scanstring t of
                  None \<Rightarrow> None
                | Some (key, r1) \<Rightarrow>
                    (case skip_ws r1 of
                       [] \<Rightarrow> None
                     | c # r2 \<Rightarrow>
                         if c \<noteq> CHR '':'' then None
                         else (case scan_once (skip_ws r2) of
                                 None \<Rightarrow> None
                               | Some (val, r3) \<Rightarrow>
                                   if length r3 < length s then
                                     (case skip_ws r3 of
                                        [] \<Rightarrow> None
                                      | d # ds \<Rightarrow>
                                          if d = CHR ''}'' then Some ([(key, val)], ds)
                                          else if d = CHR '','' then
                                            (case parse_object (skip_ws ds) of
                                               None \<Rightarrow> None
                                             | Some (pairs, rest') \<Rightarrow>
                                                 Some ((key, val) # pairs, rest'))
                                          else None)
                                   else None))))"
  by pat_completeness auto

termination
proof (relation "measures [\<lambda>x. case x of Inl s \<Rightarrow> length s | Inr (Inl s) \<Rightarrow> length s | Inr (Inr s) \<Rightarrow> length s,
                             \<lambda>x. case x of Inl s \<Rightarrow> 0 | Inr (Inl s) \<Rightarrow> 1 | Inr (Inr s) \<Rightarrow> 1]", goal_cases)
  case 1
  then show ?case by simp
next
  case (2 s c cs d ds)
  then show ?case using skip_ws_length [of cs] by simp
next
  case (3 s c cs d ds)
  then show ?case using skip_ws_length [of cs] by simp
next
  case (4 s)
  then show ?case by simp
next
  case (5 s x val rest d ds)
  then show ?case using skip_ws_Cons_length [of rest d ds] by simp
next
  case (6 s q t x key r1 c r2)
  then show ?case
    using scanstring_length [of t key r1] skip_ws_Cons_length [of r1 c r2] by simp
next
  case (7 s q t x key r1 c r2 y val r3 d ds)
  then show ?case using skip_ws_Cons_length [of r3 d ds] by simp
qed

declare scan_once.simps [simp del] parse_array.simps [simp del] parse_object.simps [simp del]

text \<open>\<open>json.loads(s)\<close>: one value between optional whitespace, and nothing else.\<close>

definition json_loads :: "string \<Rightarrow> py_error + json" where
  "json_loads s =
     (case scan_once (skip_ws s) of
        None \<Rightarrow> Inl JSONDecodeError
      | Some (obj, rest) \<Rightarrow> if skip_ws rest = [] then Inr obj else Inl JSONDecodeError)"

text \<open>
  \<open>json.dumps(v, indent=ind)\<close> at nesting level \<open>lvl\<close>: items on lines of their own,
  separated by \<open>','\<close>, keys followed by \<open>': '\<close>.
\<close>

definition newline_indent :: "nat \<Rightarrow> nat \<Rightarrow> string" where
  "newline_indent ind lvl = CHR 0x0A # replicate (ind * lvl) CHR '' ''"

fun json_dumps_indent :: "(string \<Rightarrow> string) \<Rightarrow> nat \<Rightarrow> nat \<Rightarrow> json \<Rightarrow> string" where
  "json_dumps_indent float_repr ind lvl JNull = ''null''"
| "json_dumps_indent float_repr ind lvl (JBool b) = (if b then ''true'' else ''false'')"
| "json_dumps_indent float_repr ind lvl (JInt i) = py_str_int i"
| "json_dumps_indent float_repr ind lvl (JFloat l) = float_repr l"
| "json_dumps_indent float_repr ind lvl (JString s) = encode_basestring_ascii s"
| "json_dumps_indent float_repr ind lvl (JArray vs) =
     (if vs = [] then ''[]''
      else ''['' @ newline_indent ind (Suc lvl) @
           py_join ('','' @ newline_indent ind (Suc lvl))
             (map (json_dumps_indent float_repr ind (Suc lvl)) vs) @
           newline_indent ind lvl @ '']'')"
| "json_dumps_indent float_repr ind lvl (JObject ps) =
     (if ps = [] then ''{}''
      else ''{'' @ newline_indent ind (Suc lvl) @
           py_join ('','' @ newline_indent ind (Suc lvl))
             (map (\<lambda>p. encode_basestring_ascii (fst p) @ '': '' @
                        json_dumps_indent float_repr ind (Suc lvl) (snd p)) ps) @
           newline_indent ind lvl @ ''}'')"


section \<open>The completion client and the workflow graph\<close>

text \<open>
  The completion service is outside the program: \<open>client history prompt\<close> is the text it
  returns for \<open>prompt\<close> after the prompts of \<open>history\<close>, or \<open>None\<close> when the call raises.
  \<open>llm_invoke\<close> is \<open>llm.invoke(prompt)\<close> followed by \<open>.content\<close>; the list of the
  prompts sent so far is the state of the outside world.
\<close>

type_synonym completion_client = "string list \<Rightarrow> string \<Rightarrow> string option"

definition llm_invoke ::
  "completion_client \<Rightarrow> string list \<Rightarrow> string \<Rightarrow> (py_error + string) \<times> string list" where
  "llm_invoke client calls prompt =
     ((case client calls prompt of None \<Rightarrow> Inl ServiceError | Some content \<Rightarrow> Inr content),
      calls @ [prompt])"

text \<open>\<open>state[key]\<close> on a dict in which the key may be absent.\<close>

definition getitem :: "'a option \<Rightarrow> string \<Rightarrow> py_error + 'a" where
  "getitem v key = (case v of None \<Rightarrow> Inl (KeyError key) | Some x \<Rightarrow> Inr x)"

text \<open>
  A compiled \<open>StateGraph\<close>: its nodes by name and its edges. \<open>invoke_from\<close> runs the
  graph from node \<open>cur\<close>: it follows the one edge that leaves \<open>cur\<close>, runs the node it
  reaches on the current state and goes on from there, until the edge leads to \<open>END\<close>.
  An exception of a node ends the run. The executor gives up after \<open>recursion_limit\<close>
  steps. Graphs in which a node has several successors are not covered
  (\<open>GraphError\<close>).
\<close>

type_synonym 's node_fn =
  "completion_client \<Rightarrow> string list \<Rightarrow> 's \<Rightarrow> (py_error + 's) \<times> string list"

type_synonym 's graph = "(string \<times> 's node_fn) list \<times> (string \<times> string) list"

definition START :: string where
  "START = ''__start__''"

definition END :: string where
  "END = ''__end__''"

definition successors :: "'s graph \<Rightarrow> string \<Rightarrow> string list" where
  "successors g cur = map snd (filter (\<lambda>e. fst e = cur) (snd g))"

definition recursion_limit :: nat where
  "recursion_limit = 25"

fun invoke_from ::
  "nat \<Rightarrow> 's graph \<Rightarrow> completion_client \<Rightarrow> string \<Rightarrow> string list \<Rightarrow> 's \<Rightarrow>
   (py_error + 's) \<times> string list" where
  "invoke_from 0 g client cur calls state = (Inl GraphRecursionError, calls)"
| "invoke_from (Suc n) g client cur calls state =
     (case successors g cur of
        [nxt] \<Rightarrow>
          if nxt = END then (Inr state, calls)
          else (case map_of (fst g) nxt of
                  None \<Rightarrow> (Inl GraphError, calls)
                | Some node \<Rightarrow>
                    (case node client calls state of
                       (Inl e, calls') \<Rightarrow> (Inl e, calls')
                     | (Inr state', calls') \<Rightarrow> invoke_from n g client nxt calls' state'))
      | _ \<Rightarrow> (Inl GraphError, calls))"

definition invoke ::
  "'s graph \<Rightarrow> completion_client \<Rightarrow> string list \<Rightarrow> 's \<Rightarrow> (py_error + 's) \<times> string list" where
  "invoke g client calls state = invoke_from (Suc recursion_limit) g client START calls state"


section \<open>The study-material workflow\<close>

text \<open>
  \<open>StudyMaterialState\<close> is a \<open>TypedDict\<close>: a dict whose keys have declared types, and
  in which a key can be absent (\<open>None\<close> here).
\<close>

type_synonym doc = "string \<rightharpoonup> string"

record StudyMaterialState =
  theme :: "string option"
  class_name :: "string option"
  subject :: "string option"
  prompt :: "string option"
  study_content :: "string option"
  mcqs :: "string option"
  true_false :: "string option"
  fill_blanks :: "string option"
  short_qa :: "string option"
  medium_qa :: "string option"
  long_qa :: "string option"
  user_docs :: "doc list option"
  counts :: "(ustr \<times> int) list option"

text \<open>
  \<open>generate_prompt\<close> (\<open>ICSE_8th_Physicsstudy_agent.py\<close>, lines 34 to 61). A user document
  is a dict read with \<open>d.get('name')\<close> and \<open>d.get('text', '(no extract)')\<close>; \<open>counts\<close> is
  a dict from names to integers, printed by \<open>json.dumps\<close>.
\<close>

definition doc_text :: "doc \<Rightarrow> string" where
  "doc_text d =
     ''File: '' @ (case d ''name'' of None \<Rightarrow> ''None'' | Some n \<Rightarrow> n) @ ''\<newline>'' @
     (case d ''text'' of None \<Rightarrow> ''(no extract)'' | Some t \<Rightarrow> t)"

definition generate_prompt ::
  "string \<Rightarrow> string \<Rightarrow> string \<Rightarrow> doc list \<Rightarrow> (ustr \<times> int) list \<Rightarrow> string" where
  "generate_prompt = (\<lambda>theme class_name subject user_docs counts.
     let docs_text = (if user_docs \<noteq> [] then py_join ''\<newline>'' (map doc_text user_docs)
                      else ''No user documents provided.'');
         counts_text = json_dumps (\<lambda>l. l) (JObject (map (\<lambda>(k, n). (k, JInt n)) counts))
     in
     ''You are an expert ICSE teacher for 8th Standard Physics. Create comprehensive study material based on the following:\<newline>'' @
     ''\<newline>'' @
     ''Theme: '' @
     theme @
     ''\<newline>'' @
     ''Class: '' @
     class_name @
     ''\<newline>'' @
     ''Subject: '' @
     subject @
     ''\<newline>'' @
     ''Board: ICSE\<newline>'' @
     ''\<newline>'' @
     ''User provided documents (if any):\<newline>'' @
     docs_text @
     ''\<newline>'' @
     ''\<newline>'' @
     ''Generation parameters (counts): '' @
     counts_text @
     ''\<newline>'' @
     ''\<newline>'' @
     ''Create ONLY content for ICSE 8th Standard Physics. Use the user documents to inform and enrich examples and questions where relevant.\<newline>'' @
     ''\<newline>'' @
     ''Produce the following sections. Respect the requested number of items for each question type (counts) and organize by difficulty levels (EASY, MEDIUM, HARD, HARDEST) where applicable.\<newline>'' @
     ''\<newline>'' @
     ''1. STUDY CONTENT & KEY POINTS: overview, 5-7 key learning points with explanations, important definitions, practical applications.\<newline>'' @
     ''2. MCQs: generate the specified total number of MCQs and split them across difficulty levels roughly evenly.\<newline>'' @
     ''3. TRUE OR FALSE: generate the specified total number and split across difficulties.\<newline>'' @
     ''4. FILL IN THE BLANKS: generate the specified total number and split across difficulties.\<newline>'' @
     ''5. SHORT Q&A (3-4 lines): generate the specified total number split by difficulties.\<newline>'' @
     ''6. MEDIUM Q&A (6-7 lines): generate the specified total number split by difficulties.\<newline>'' @
     ''7. LONG Q&A (10-20 lines): generate the specified total number split by difficulties.\<newline>'' @
     ''\<newline>'' @
     ''Format the output clearly with headings for each section and difficulty, and include answers for all questions.'')"

text \<open>
  The seven node functions (lines 63 to 110): each builds its prompt, calls the
  completion client once and stores the text returned under its section key.
\<close>

text \<open>
  The expression every node starts with: \<open>generate_prompt(state['theme'],
  state['class_name'], state['subject'], state.get('user_docs', []),
  state.get('counts', {})) + suffix\<close>.
\<close>

definition section_prompt :: "StudyMaterialState \<Rightarrow> string \<Rightarrow> py_error + string" where
  "section_prompt state suffix =
     (case getitem (theme state) ''theme'' of
        Inl e \<Rightarrow> Inl e
      | Inr th \<Rightarrow>
          (case getitem (class_name state) ''class_name'' of
             Inl e \<Rightarrow> Inl e
           | Inr cn \<Rightarrow>
               (case getitem (subject state) ''subject'' of
                  Inl e \<Rightarrow> Inl e
                | Inr sj \<Rightarrow>
                    Inr (generate_prompt th cn sj
                           (case user_docs state of None \<Rightarrow> [] | Some ds \<Rightarrow> ds)
                           (case counts state of None \<Rightarrow> [] | Some cs \<Rightarrow> cs) @ suffix))))"

definition generate_study_content :: "StudyMaterialState node_fn" where
  "generate_study_content client calls state =
     (case section_prompt state
             ''\<newline>\<newline>Now provide the STUDY CONTENT & KEY POINTS section only.'' of
        Inl e \<Rightarrow> (Inl e, calls)
      | Inr p \<Rightarrow>
          (case llm_invoke client calls p of
             (Inl e, calls') \<Rightarrow> (Inl e, calls')
           | (Inr content, calls') \<Rightarrow> (Inr (state\<lparr>study_content := Some content\<rparr>), calls')))"

definition generate_mcqs :: "StudyMaterialState node_fn" where
  "generate_mcqs client calls state =
     (case section_prompt state
             ''\<newline>\<newline>Now provide the MCQs section only, respecting the requested counts.'' of
        Inl e \<Rightarrow> (Inl e, calls)
      | Inr p \<Rightarrow>
          (case llm_invoke client calls p of
             (Inl e, calls') \<Rightarrow> (Inl e, calls')
           | (Inr content, calls') \<Rightarrow> (Inr (state\<lparr>mcqs := Some content\<rparr>), calls')))"

definition generate_true_false :: "StudyMaterialState node_fn" where
  "generate_true_false client calls state =
     (case section_prompt state
             ''\<newline>\<newline>Now provide the True/False section only, respecting the requested counts.'' of
        Inl e \<Rightarrow> (Inl e, calls)
      | Inr p \<Rightarrow>
          (case llm_invoke client calls p of
             (Inl e, calls') \<Rightarrow> (Inl e, calls')
           | (Inr content, calls') \<Rightarrow> (Inr (state\<lparr>true_false := Some content\<rparr>), calls')))"

definition generate_fill_blanks :: "StudyMaterialState node_fn" where
  "generate_fill_blanks client calls state =
     (case section_prompt state
             ''\<newline>\<newline>Now provide the Fill-in-the-Blanks section only, respecting the requested counts.'' of
        Inl e \<Rightarrow> (Inl e, calls)
      | Inr p \<Rightarrow>
          (case llm_invoke client calls p of
             (Inl e, calls') \<Rightarrow> (Inl e, calls')
           | (Inr content, calls') \<Rightarrow> (Inr (state\<lparr>fill_blanks := Some content\<rparr>), calls')))"

definition generate_short_qa :: "StudyMaterialState node_fn" where
  "generate_short_qa client calls state =
     (case section_prompt state
             ''\<newline>\<newline>Now provide the Short Q&A section only, respecting the requested counts and length.'' of
        Inl e \<Rightarrow> (Inl e, calls)
      | Inr p \<Rightarrow>
          (case llm_invoke client calls p of
             (Inl e, calls') \<Rightarrow> (Inl e, calls')
           | (Inr content, calls') \<Rightarrow> (Inr (state\<lparr>short_qa := Some content\<rparr>), calls')))"

definition generate_medium_qa :: "StudyMaterialState node_fn" where
  "generate_medium_qa client calls state =
     (case section_prompt state
             ''\<newline>\<newline>Now provide the Medium Q&A section only, respecting the requested counts and length.'' of
        Inl e \<Rightarrow> (Inl e, calls)
      | Inr p \<Rightarrow>
          (case llm_invoke client calls p of
             (Inl e, calls') \<Rightarrow> (Inl e, calls')
           | (Inr content, calls') \<Rightarrow> (Inr (state\<lparr>medium_qa := Some content\<rparr>), calls')))"

definition generate_long_qa :: "StudyMaterialState node_fn" where
  "generate_long_qa client calls state =
     (case section_prompt state
             ''\<newline>\<newline>Now provide the Long Q&A section only, respecting the requested counts and length.'' of
        Inl e \<Rightarrow> (Inl e, calls)
      | Inr p \<Rightarrow>
          (case llm_invoke client calls p of
             (Inl e, calls') \<Rightarrow> (Inl e, calls')
           | (Inr content, calls') \<Rightarrow> (Inr (state\<lparr>long_qa := Some content\<rparr>), calls')))"

text \<open>\<open>build_study_graph\<close> (lines 113 to 136): seven nodes, eight edges.\<close>

definition build_study_graph :: "StudyMaterialState graph" where
  "build_study_graph =
     ([(''generate_study_content'', generate_study_content),
       (''generate_mcqs'', generate_mcqs),
       (''generate_true_false'', generate_true_false),
       (''generate_fill_blanks'', generate_fill_blanks),
       (''generate_short_qa'', generate_short_qa),
       (''generate_medium_qa'', generate_medium_qa),
       (''generate_long_qa'', generate_long_qa)],
      [(START, ''generate_study_content''),
       (''generate_study_content'', ''generate_mcqs''),
       (''generate_mcqs'', ''generate_true_false''),
       (''generate_true_false'', ''generate_fill_blanks''),
       (''generate_fill_blanks'', ''generate_short_qa''),
       (''generate_short_qa'', ''generate_medium_qa''),
       (''generate_medium_qa'', ''generate_long_qa''),
       (''generate_long_qa'', END)])"

definition study_graph :: "StudyMaterialState graph" where
  "study_graph = build_study_graph"

text \<open>
  \<open>generate_study_material\<close>: \<open>None\<close> for \<open>user_docs\<close> or \<open>counts\<close> is the omitted
  (or \<open>None\<close>) argument; \<open>user_docs or []\<close> and \<open>counts or {}\<close> replace it, and an empty
  list or dict, by the empty one.
\<close>

definition initial_study_state ::
  "string \<Rightarrow> string \<Rightarrow> string \<Rightarrow> doc list option \<Rightarrow> (ustr \<times> int) list option \<Rightarrow>
   StudyMaterialState" where
  "initial_study_state = (\<lambda>theme class_name subject user_docs counts.
     \<lparr>theme = Some theme,
      class_name = Some class_name,
      subject = Some subject,
      prompt = Some '''',
      study_content = Some '''',
      mcqs = Some '''',
      true_false = Some '''',
      fill_blanks = Some '''',
      short_qa = Some '''',
      medium_qa = Some '''',
      long_qa = Some '''',
      user_docs = Some (case user_docs of None \<Rightarrow> [] | Some ds \<Rightarrow> ds),
      counts = Some (case counts of None \<Rightarrow> [] | Some cs \<Rightarrow> cs)\<rparr>)"

definition generate_study_material ::
  "completion_client \<Rightarrow> string list \<Rightarrow> string \<Rightarrow> string \<Rightarrow> string \<Rightarrow> doc list option \<Rightarrow>
   (ustr \<times> int) list option \<Rightarrow> (py_error + StudyMaterialState) \<times> string list" where
  "generate_study_material client calls = (\<lambda>theme class_name subject user_docs counts.
     invoke study_graph client calls
       (initial_study_state theme class_name subject user_docs counts))"


section \<open>The test workflow and the answer evaluator\<close>

record TestState =
  theme :: "string option"
  class_name :: "string option"
  subject :: "string option"
  num_mcq :: "int option"
  num_true_false :: "int option"
  num_fill_blanks :: "int option"
  num_short_qa :: "int option"
  num_medium_qa :: "int option"
  num_long_qa :: "int option"
  questions :: "json option"
  user_answers :: "json option"
  corrections :: "json option"

text \<open>
  \<open>generate_test_prompt\<close> (\<open>ICSE_8th_Physics_test_agent.py\<close>, lines 32 to 94); the numbers
  are printed by the f-string as \<open>str\<close> prints an \<open>int\<close>.
\<close>

definition generate_test_prompt ::
  "string \<Rightarrow> string \<Rightarrow> string \<Rightarrow> int \<Rightarrow> int \<Rightarrow> int \<Rightarrow> int \<Rightarrow> int \<Rightarrow> int \<Rightarrow> string" where
  \<open>generate_test_prompt = (\<lambda>theme class_name subject num_mcq num_true_false num_fill_blanks
                                num_short_qa num_medium_qa num_long_qa.
     ''You are an expert ICSE 8th Standard Physics teacher. Create a comprehensive test for the following topic:\<newline>'' @
     ''\<newline>'' @
     ''Theme: '' @
     theme @
     ''\<newline>'' @
     ''Class: '' @
     class_name @
     ''\<newline>'' @
     ''Subject: '' @
     subject @
     ''\<newline>'' @
     ''Board: ICSE\<newline>'' @
     ''\<newline>'' @
     ''Generate EXACTLY the following number of questions for each section, with questions organized by difficulty levels (EASY, MEDIUM, HARD, HARDEST). Distribute questions roughly evenly across difficulty levels for each section.\<newline>'' @
     ''\<newline>'' @
     ''REQUIREMENTS:\<newline>'' @
     ''1. MCQs: Generate '' @
     py_str_int num_mcq @
     '' multiple choice questions (4 options each, clearly mark correct answer)\<newline>'' @
     ''2. TRUE OR FALSE: Generate '' @
     py_str_int num_true_false @
     '' true/false statements\<newline>'' @
     ''3. FILL IN THE BLANKS: Generate '' @
     py_str_int num_fill_blanks @
     '' fill-in-the-blank questions\<newline>'' @
     ''4. SHORT Q&A (3-4 lines): Generate '' @
     py_str_int num_short_qa @
     '' short question & answer pairs\<newline>'' @
     ''5. MEDIUM Q&A (6-7 lines): Generate '' @
     py_str_int num_medium_qa @
     '' medium question & answer pairs\<newline>'' @
     ''6. LONG Q&A (10-20 lines): Generate '' @
     py_str_int num_long_qa @
     '' long question & answer pairs\<newline>'' @
     ''\<newline>'' @
     ''Return the output as a valid JSON with this structure:\<newline>'' @
     ''{\<newline>'' @
     ''    "mcqs": {\<newline>'' @
     ''        "EASY": [\<newline>'' @
     ''            {"question": "...", "options": ["A", "B", "C", "D"], "answer": "A", "explanation": "..."}\<newline>'' @
     ''        ],\<newline>'' @
     ''        "MEDIUM": [...],\<newline>'' @
     ''        "HARD": [...],\<newline>'' @
     ''        "HARDEST": [...]\<newline>'' @
     ''    },\<newline>'' @
     ''    "true_false": {\<newline>'' @
     ''        "EASY": [\<newline>'' @
     ''            {"statement": "...", "answer": true/false, "explanation": "..."}\<newline>'' @
     ''        ],\<newline>'' @
     ''        ...\<newline>'' @
     ''    },\<newline>'' @
     ''    "fill_blanks": {\<newline>'' @
     ''        "EASY": [\<newline>'' @
     ''            {"question": "... _____ ...", "answer": "word", "explanation": "..."}\<newline>'' @
     ''        ],\<newline>'' @
     ''        ...\<newline>'' @
     ''    },\<newline>'' @
     ''    "short_qa": {\<newline>'' @
     ''        "EASY": [\<newline>'' @
     ''            {"question": "...", "answer": "...", "points": 1}\<newline>'' @
     ''        ],\<newline>'' @
     ''        ...\<newline>'' @
     ''    },\<newline>'' @
     ''    "medium_qa": {\<newline>'' @
     ''        "EASY": [\<newline>'' @
     ''            {"question": "...", "answer": "...", "points": 3}\<newline>'' @
     ''        ],\<newline>'' @
     ''        ...\<newline>'' @
     ''    },\<newline>'' @
     ''    "long_qa": {\<newline>'' @
     ''        "EASY": [\<newline>'' @
     ''            {"question": "...", "answer": "...", "points": 5}\<newline>'' @
     ''        ],\<newline>'' @
     ''        ...\<newline>'' @
     ''    }\<newline>'' @
     ''}\<newline>'' @
     ''\<newline>'' @
     ''Ensure all content is appropriate for 8th Standard ICSE Physics syllabus. Make questions comprehensive and test understanding.'')\<close>

text \<open>
  The text handed to \<open>json.loads\<close>, chosen in the \<open>try\<close> block of
  \<open>generate_test_questions\<close> and, with the same statements, of \<open>evaluate_answers\<close>:
  what follows the first \<open>```json\<close> up to the next \<open>```\<close>, stripped; else the text
  from the first \<open>{\<close> to the last \<open>}\<close>; else the whole text.
\<close>

definition select_json_str :: "string \<Rightarrow> string" where
  "select_json_str response_text =
     (if py_in ''```json'' response_text then
        (let json_start = py_find response_text ''```json'' 0 + 7;
             json_end = py_find response_text ''```'' json_start
         in py_strip (py_slice response_text json_start json_end))
      else if py_in ''{'' response_text then
        (let json_start = py_find response_text ''{'' 0;
             json_end = py_rfind response_text ''}'' + 1
         in py_slice response_text json_start json_end)
      else response_text)"

text \<open>
  The \<open>try\<close> and \<open>except json.JSONDecodeError\<close> of \<open>generate_test_questions\<close>.
\<close>

definition parse_questions :: "string \<Rightarrow> json" where
  "parse_questions response_text =
     (case json_loads (select_json_str response_text) of
        Inr obj \<Rightarrow> obj
      | Inl e \<Rightarrow> JObject [(ustr ''raw_response'', JString (ustr response_text))])"

text \<open>
  \<open>generate_test_questions\<close> (lines 96 to 127): the prompt from the fields of the state,
  one completion call, the parsed text stored under \<open>questions\<close>.
\<close>

definition test_prompt_of :: "TestState \<Rightarrow> py_error + string" where
  "test_prompt_of state =
     (case getitem (theme state) ''theme'' of
        Inl e \<Rightarrow> Inl e
      | Inr th \<Rightarrow>
     (case getitem (class_name state) ''class_name'' of
        Inl e \<Rightarrow> Inl e
      | Inr cn \<Rightarrow>
     (case getitem (subject state) ''subject'' of
        Inl e \<Rightarrow> Inl e
      | Inr sj \<Rightarrow>
     (case getitem (num_mcq state) ''num_mcq'' of
        Inl e \<Rightarrow> Inl e
      | Inr n1 \<Rightarrow>
     (case getitem (num_true_false state) ''num_true_false'' of
        Inl e \<Rightarrow> Inl e
      | Inr n2 \<Rightarrow>
     (case getitem (num_fill_blanks state) ''num_fill_blanks'' of
        Inl e \<Rightarrow> Inl e
      | Inr n3 \<Rightarrow>
     (case getitem (num_short_qa state) ''num_short_qa'' of
        Inl e \<Rightarrow> Inl e
      | Inr n4 \<Rightarrow>
     (case getitem (num_medium_qa state) ''num_medium_qa'' of
        Inl e \<Rightarrow> Inl e
      | Inr n5 \<Rightarrow>
     (case getitem (num_long_qa state) ''num_long_qa'' of
        Inl e \<Rightarrow> Inl e
      | Inr n6 \<Rightarrow> Inr (generate_test_prompt th cn sj n1 n2 n3 n4 n5 n6))))))))))"

definition generate_test_questions :: "TestState node_fn" where
  "generate_test_questions client calls state =
     (case test_prompt_of state of
        Inl e \<Rightarrow> (Inl e, calls)
      | Inr p \<Rightarrow>
          (case llm_invoke client calls p of
             (Inl e, calls') \<Rightarrow> (Inl e, calls')
           | (Inr response_text, calls') \<Rightarrow>
               (Inr (state\<lparr>questions := Some (parse_questions response_text)\<rparr>), calls')))"

text \<open>\<open>build_test_graph\<close> (lines 129 to 135) and \<open>generate_test\<close> (lines 140 to 160).\<close>

definition build_test_graph :: "TestState graph" where
  "build_test_graph =
     ([(''generate_test_questions'', generate_test_questions)],
      [(START, ''generate_test_questions''),
       (''generate_test_questions'', END)])"

definition test_graph :: "TestState graph" where
  "test_graph = build_test_graph"

definition generate_test ::
  "completion_client \<Rightarrow> string list \<Rightarrow> string \<Rightarrow> string \<Rightarrow> string \<Rightarrow>
   int \<Rightarrow> int \<Rightarrow> int \<Rightarrow> int \<Rightarrow> int \<Rightarrow> int \<Rightarrow> (py_error + TestState) \<times> string list" where
  "generate_test client calls = (\<lambda>theme class_name subject num_mcq num_true_false num_fill_blanks
                                  num_short_qa num_medium_qa num_long_qa.
     invoke test_graph client calls
       \<lparr>theme = Some theme,
        class_name = Some class_name,
        subject = Some subject,
        num_mcq = Some num_mcq,
        num_true_false = Some num_true_false,
        num_fill_blanks = Some num_fill_blanks,
        num_short_qa = Some num_short_qa,
        num_medium_qa = Some num_medium_qa,
        num_long_qa = Some num_long_qa,
        questions = Some (JObject []),
        user_answers = Some (JObject []),
        corrections = Some (JObject [])\<rparr>)"

text \<open>
  The \<open>try\<close> and \<open>except json.JSONDecodeError\<close> of \<open>evaluate_answers\<close>.
\<close>

definition parse_corrections :: "string \<Rightarrow> json" where
  "parse_corrections response_text =
     (case json_loads (select_json_str response_text) of
        Inr obj \<Rightarrow> obj
      | Inl e \<Rightarrow> JObject [(ustr ''raw_feedback'', JString (ustr response_text))])"

text \<open>
  \<open>evaluate_answers\<close> (lines 162 to 207): the grading prompt with both dicts printed by
  \<open>json.dumps(..., indent=2)\<close>, one completion call, the parsed text returned.
\<close>

definition evaluate_prompt :: "(string \<Rightarrow> string) \<Rightarrow> json \<Rightarrow> json \<Rightarrow> string" where
  \<open>evaluate_prompt = (\<lambda>float_repr questions user_answers.
     ''You are an ICSE Physics teacher evaluating student answers.\<newline>'' @
     ''\<newline>'' @
     ''QUESTIONS AND CORRECT ANSWERS:\<newline>'' @
     json_dumps_indent float_repr 2 0 questions @
     ''\<newline>'' @
     ''\<newline>'' @
     ''STUDENT ANSWERS:\<newline>'' @
     json_dumps_indent float_repr 2 0 user_answers @
     ''\<newline>'' @
     ''\<newline>'' @
     ''Evaluate each answer and provide:\<newline>'' @
     ''1. Whether it's correct or incorrect\<newline>'' @
     ''2. Score for this answer (0 for completely wrong, partial for partially correct, full for correct)\<newline>'' @
     ''3. Detailed explanation of the correct answer\<newline>'' @
     ''4. What the student missed or did incorrectly\<newline>'' @
     ''\<newline>'' @
     ''Return as JSON with structure:\<newline>'' @
     ''{\<newline>'' @
     ''    "question_id": {\<newline>'' @
     ''        "is_correct": true/false,\<newline>'' @
     ''        "score": 0/partial/full,\<newline>'' @
     ''        "feedback": "...",\<newline>'' @
     ''        "correct_answer": "..."\<newline>'' @
     ''    }\<newline>'' @
     ''}'')\<close>

definition evaluate_answers ::
  "(string \<Rightarrow> string) \<Rightarrow> completion_client \<Rightarrow> string list \<Rightarrow> json \<Rightarrow> json \<Rightarrow>
   (py_error + json) \<times> string list" where
  "evaluate_answers float_repr client calls = (\<lambda>questions user_answers.
     (case llm_invoke client calls (evaluate_prompt float_repr questions user_answers) of
        (Inl e, calls') \<Rightarrow> (Inl e, calls')
      | (Inr response_text, calls') \<Rightarrow> (Inr (parse_corrections response_text), calls')))"


section \<open>Definitions used in the statements\<close>

text \<open>
  The seven prompts of the study-material workflow, in the order of the edges:
  the full prompt followed by the suffix of the section.
\<close>

definition study_suffixes :: "string list" where
  "study_suffixes =
     [''\<newline>\<newline>Now provide the STUDY CONTENT & KEY POINTS section only.'',
      ''\<newline>\<newline>Now provide the MCQs section only, respecting the requested counts.'',
      ''\<newline>\<newline>Now provide the True/False section only, respecting the requested counts.'',
      ''\<newline>\<newline>Now provide the Fill-in-the-Blanks section only, respecting the requested counts.'',
      ''\<newline>\<newline>Now provide the Short Q&A section only, respecting the requested counts and length.'',
      ''\<newline>\<newline>Now provide the Medium Q&A section only, respecting the requested counts and length.'',
      ''\<newline>\<newline>Now provide the Long Q&A section only, respecting the requested counts and length.'']"

definition study_prompts ::
  "string \<Rightarrow> string \<Rightarrow> string \<Rightarrow> doc list option \<Rightarrow> (ustr \<times> int) list option \<Rightarrow> string list" where
  "study_prompts = (\<lambda>theme class_name subject user_docs counts.
     map (\<lambda>suffix. generate_prompt theme class_name subject
                      (case user_docs of None \<Rightarrow> [] | Some ds \<Rightarrow> ds)
                      (case counts of None \<Rightarrow> [] | Some cs \<Rightarrow> cs) @ suffix)
         study_suffixes)"

text \<open>
  Sending a list of prompts in order, up to the first call that raises: the texts
  returned, and the calls made.
\<close>

fun ask_all :: "completion_client \<Rightarrow> string list \<Rightarrow> string list \<Rightarrow> string list option \<times> string list" where
  "ask_all client calls [] = (Some [], calls)"
| "ask_all client calls (p # ps) =
     (case client calls p of
        None \<Rightarrow> (None, calls @ [p])
      | Some r \<Rightarrow>
          (case ask_all client (calls @ [p]) ps of
             (None, calls') \<Rightarrow> (None, calls')
           | (Some rs, calls') \<Rightarrow> (Some (r # rs), calls')))"

text \<open>Running node functions one after the other, up to the first exception.\<close>

fun run_nodes ::
  "'s node_fn list \<Rightarrow> completion_client \<Rightarrow> string list \<Rightarrow> 's \<Rightarrow> (py_error + 's) \<times> string list" where
  "run_nodes [] client calls state = (Inr state, calls)"
| "run_nodes (node # nodes) client calls state =
     (case node client calls state of
        (Inl e, calls') \<Rightarrow> (Inl e, calls')
      | (Inr state', calls') \<Rightarrow> run_nodes nodes client calls' state')"

text \<open>The request fields of a state.\<close>

definition request_of :: "StudyMaterialState \<Rightarrow> string \<Rightarrow> string \<Rightarrow> string \<Rightarrow> doc list \<Rightarrow> (ustr \<times> int) list \<Rightarrow> bool" where
  "request_of st t c s d k =
     (StudyMaterialState.theme st = Some t \<and> StudyMaterialState.class_name st = Some c \<and>
      StudyMaterialState.subject st = Some s \<and> user_docs st = Some d \<and> counts st = Some k)"

text \<open>
  Two completion clients: one that always answers, one whose call number \<open>n\<close>
  (counted from 0) raises.
\<close>

definition ok_client :: completion_client where
  "ok_client calls p = Some ''ok''"

definition failing_client :: "nat \<Rightarrow> completion_client" where
  "failing_client n calls p = (if length calls = n then None else Some ''ok'')"











section \<open>The study-material workflow: lemmas\<close>

lemma section_prompt_ok:
  "StudyMaterialState.theme st = Some t \<Longrightarrow> StudyMaterialState.class_name st = Some c \<Longrightarrow> StudyMaterialState.subject st = Some s \<Longrightarrow>
   user_docs st = Some d \<Longrightarrow> counts st = Some k \<Longrightarrow>
   section_prompt st suffix = Inr (generate_prompt t c s d k @ suffix)"
  by (simp add: section_prompt_def getitem_def)

lemma successors_study:
  "successors study_graph START = [''generate_study_content'']"
  "successors study_graph ''generate_study_content'' = [''generate_mcqs'']"
  "successors study_graph ''generate_mcqs'' = [''generate_true_false'']"
  "successors study_graph ''generate_true_false'' = [''generate_fill_blanks'']"
  "successors study_graph ''generate_fill_blanks'' = [''generate_short_qa'']"
  "successors study_graph ''generate_short_qa'' = [''generate_medium_qa'']"
  "successors study_graph ''generate_medium_qa'' = [''generate_long_qa'']"
  "successors study_graph ''generate_long_qa'' = [END]"
  by (simp_all add: successors_def study_graph_def build_study_graph_def START_def END_def)

lemma nodes_study:
  "map_of (fst study_graph) ''generate_study_content'' = Some generate_study_content"
  "map_of (fst study_graph) ''generate_mcqs'' = Some generate_mcqs"
  "map_of (fst study_graph) ''generate_true_false'' = Some generate_true_false"
  "map_of (fst study_graph) ''generate_fill_blanks'' = Some generate_fill_blanks"
  "map_of (fst study_graph) ''generate_short_qa'' = Some generate_short_qa"
  "map_of (fst study_graph) ''generate_medium_qa'' = Some generate_medium_qa"
  "map_of (fst study_graph) ''generate_long_qa'' = Some generate_long_qa"
  by (simp_all add: study_graph_def build_study_graph_def)

lemma invoke_study_graph:
  "invoke study_graph client calls st =
   run_nodes [generate_study_content, generate_mcqs, generate_true_false, generate_fill_blanks,
              generate_short_qa, generate_medium_qa, generate_long_qa] client calls st"
  unfolding invoke_def recursion_limit_def
  by (simp add: numeral_eq_Suc successors_study nodes_study END_def
           split: prod.splits sum.splits)

lemma section_prompt_request:
  "request_of st t c s d k \<Longrightarrow> section_prompt st suffix = Inr (generate_prompt t c s d k @ suffix)"
  by (simp add: request_of_def section_prompt_ok)

lemma generate_study_content_request:
  "request_of st t c s d k \<Longrightarrow>
   generate_study_content client calls st =
     (case client calls (generate_prompt t c s d k @ study_suffixes ! 0) of
        None \<Rightarrow> (Inl ServiceError, calls @ [generate_prompt t c s d k @ study_suffixes ! 0])
      | Some r \<Rightarrow> (Inr (st\<lparr>study_content := Some r\<rparr>),
                   calls @ [generate_prompt t c s d k @ study_suffixes ! 0]))"
  by (simp add: generate_study_content_def section_prompt_request llm_invoke_def study_suffixes_def
           split: option.splits)

lemma request_of_study_content [simp]:
  "request_of (st\<lparr>study_content := v\<rparr>) t c s d k = request_of st t c s d k"
  by (simp add: request_of_def)

lemma generate_mcqs_request:
  "request_of st t c s d k \<Longrightarrow>
   generate_mcqs client calls st =
     (case client calls (generate_prompt t c s d k @ study_suffixes ! 1) of
        None \<Rightarrow> (Inl ServiceError, calls @ [generate_prompt t c s d k @ study_suffixes ! 1])
      | Some r \<Rightarrow> (Inr (st\<lparr>mcqs := Some r\<rparr>),
                   calls @ [generate_prompt t c s d k @ study_suffixes ! 1]))"
  by (simp add: generate_mcqs_def section_prompt_request llm_invoke_def study_suffixes_def
           split: option.splits)

lemma request_of_mcqs [simp]:
  "request_of (st\<lparr>mcqs := v\<rparr>) t c s d k = request_of st t c s d k"
  by (simp add: request_of_def)

lemma generate_true_false_request:
  "request_of st t c s d k \<Longrightarrow>
   generate_true_false client calls st =
     (case client calls (generate_prompt t c s d k @ study_suffixes ! 2) of
        None \<Rightarrow> (Inl ServiceError, calls @ [generate_prompt t c s d k @ study_suffixes ! 2])
      | Some r \<Rightarrow> (Inr (st\<lparr>true_false := Some r\<rparr>),
                   calls @ [generate_prompt t c s d k @ study_suffixes ! 2]))"
  by (simp add: generate_true_false_def section_prompt_request llm_invoke_def study_suffixes_def
           split: option.splits)

lemma request_of_true_false [simp]:
  "request_of (st\<lparr>true_false := v\<rparr>) t c s d k = request_of st t c s d k"
  by (simp add: request_of_def)

lemma generate_fill_blanks_request:
  "request_of st t c s d k \<Longrightarrow>
   generate_fill_blanks client calls st =
     (case client calls (generate_prompt t c s d k @ study_suffixes ! 3) of
        None \<Rightarrow> (Inl ServiceError, calls @ [generate_prompt t c s d k @ study_suffixes ! 3])
      | Some r \<Rightarrow> (Inr (st\<lparr>fill_blanks := Some r\<rparr>),
                   calls @ [generate_prompt t c s d k @ study_suffixes ! 3]))"
  by (simp add: generate_fill_blanks_def section_prompt_request llm_invoke_def study_suffixes_def
           split: option.splits)

lemma request_of_fill_blanks [simp]:
  "request_of (st\<lparr>fill_blanks := v\<rparr>) t c s d k = request_of st t c s d k"
  by (simp add: request_of_def)

lemma generate_short_qa_request:
  "request_of st t c s d k \<Longrightarrow>
   generate_short_qa client calls st =
     (case client calls (generate_prompt t c s d k @ study_suffixes ! 4) of
        None \<Rightarrow> (Inl ServiceError, calls @ [generate_prompt t c s d k @ study_suffixes ! 4])
      | Some r \<Rightarrow> (Inr (st\<lparr>short_qa := Some r\<rparr>),
                   calls @ [generate_prompt t c s d k @ study_suffixes ! 4]))"
  by (simp add: generate_short_qa_def section_prompt_request llm_invoke_def study_suffixes_def
           split: option.splits)

lemma request_of_short_qa [simp]:
  "request_of (st\<lparr>short_qa := v\<rparr>) t c s d k = request_of st t c s d k"
  by (simp add: request_of_def)

lemma generate_medium_qa_request:
  "request_of st t c s d k \<Longrightarrow>
   generate_medium_qa client calls st =
     (case client calls (generate_prompt t c s d k @ study_suffixes ! 5) of
        None \<Rightarrow> (Inl ServiceError, calls @ [generate_prompt t c s d k @ study_suffixes ! 5])
      | Some r \<Rightarrow> (Inr (st\<lparr>medium_qa := Some r\<rparr>),
                   calls @ [generate_prompt t c s d k @ study_suffixes ! 5]))"
  by (simp add: generate_medium_qa_def section_prompt_request llm_invoke_def study_suffixes_def
           split: option.splits)

lemma request_of_medium_qa [simp]:
  "request_of (st\<lparr>medium_qa := v\<rparr>) t c s d k = request_of st t c s d k"
  by (simp add: request_of_def)

lemma generate_long_qa_request:
  "request_of st t c s d k \<Longrightarrow>
   generate_long_qa client calls st =
     (case client calls (generate_prompt t c s d k @ study_suffixes ! 6) of
        None \<Rightarrow> (Inl ServiceError, calls @ [generate_prompt t c s d k @ study_suffixes ! 6])
      | Some r \<Rightarrow> (Inr (st\<lparr>long_qa := Some r\<rparr>),
                   calls @ [generate_prompt t c s d k @ study_suffixes ! 6]))"
  by (simp add: generate_long_qa_def section_prompt_request llm_invoke_def study_suffixes_def
           split: option.splits)

lemma request_of_long_qa [simp]:
  "request_of (st\<lparr>long_qa := v\<rparr>) t c s d k = request_of st t c s d k"
  by (simp add: request_of_def)

lemmas node_request = generate_study_content_request generate_mcqs_request
  generate_true_false_request generate_fill_blanks_request generate_short_qa_request
  generate_medium_qa_request generate_long_qa_request

lemma request_of_initial:
  "request_of (initial_study_state t c s d k) t c s
     (case d of None \<Rightarrow> [] | Some ds \<Rightarrow> ds) (case k of None \<Rightarrow> [] | Some cs \<Rightarrow> cs)"
  by (simp add: request_of_def initial_study_state_def)

lemma study_prompts_list:
  "study_prompts t c s d k =
     [generate_prompt t c s (case d of None \<Rightarrow> [] | Some ds \<Rightarrow> ds) (case k of None \<Rightarrow> [] | Some cs \<Rightarrow> cs) @ study_suffixes ! 0,
      generate_prompt t c s (case d of None \<Rightarrow> [] | Some ds \<Rightarrow> ds) (case k of None \<Rightarrow> [] | Some cs \<Rightarrow> cs) @ study_suffixes ! 1,
      generate_prompt t c s (case d of None \<Rightarrow> [] | Some ds \<Rightarrow> ds) (case k of None \<Rightarrow> [] | Some cs \<Rightarrow> cs) @ study_suffixes ! 2,
      generate_prompt t c s (case d of None \<Rightarrow> [] | Some ds \<Rightarrow> ds) (case k of None \<Rightarrow> [] | Some cs \<Rightarrow> cs) @ study_suffixes ! 3,
      generate_prompt t c s (case d of None \<Rightarrow> [] | Some ds \<Rightarrow> ds) (case k of None \<Rightarrow> [] | Some cs \<Rightarrow> cs) @ study_suffixes ! 4,
      generate_prompt t c s (case d of None \<Rightarrow> [] | Some ds \<Rightarrow> ds) (case k of None \<Rightarrow> [] | Some cs \<Rightarrow> cs) @ study_suffixes ! 5,
      generate_prompt t c s (case d of None \<Rightarrow> [] | Some ds \<Rightarrow> ds) (case k of None \<Rightarrow> [] | Some cs \<Rightarrow> cs) @ study_suffixes ! 6]"
  by (simp add: study_prompts_def study_suffixes_def)

lemma run_study_nodes:
  assumes "request_of st t c s d k"
  shows "run_nodes [generate_study_content, generate_mcqs, generate_true_false, generate_fill_blanks,
              generate_short_qa, generate_medium_qa, generate_long_qa] client calls st =
    (case ask_all client calls (map (\<lambda>i. generate_prompt t c s d k @ study_suffixes ! i) [0, 1, 2, 3, 4, 5, 6]) of
       (None, calls') \<Rightarrow> (Inl ServiceError, calls')
     | (Some rs, calls') \<Rightarrow>
         (Inr (st\<lparr>study_content := Some (rs ! 0), mcqs := Some (rs ! 1), true_false := Some (rs ! 2),
                  fill_blanks := Some (rs ! 3), short_qa := Some (rs ! 4), medium_qa := Some (rs ! 5),
                  long_qa := Some (rs ! 6)\<rparr>), calls'))"
  using assms by (simp add: node_request split: option.splits)

lemma generate_study_material_eq:
  "generate_study_material client calls t c s d k =
     (case ask_all client calls (study_prompts t c s d k) of
        (None, calls') \<Rightarrow> (Inl ServiceError, calls')
      | (Some rs, calls') \<Rightarrow>
          (Inr ((initial_study_state t c s d k)
                  \<lparr>study_content := Some (rs ! 0), mcqs := Some (rs ! 1),
                   true_false := Some (rs ! 2), fill_blanks := Some (rs ! 3),
                   short_qa := Some (rs ! 4), medium_qa := Some (rs ! 5),
                   long_qa := Some (rs ! 6)\<rparr>), calls'))"
  unfolding generate_study_material_def invoke_study_graph study_prompts_list
  using run_study_nodes [OF request_of_initial]
  by simp

lemma ask_all_calls: "\<exists>n\<le>length ps. snd (ask_all client calls ps) = calls @ take n ps"
proof (induction ps arbitrary: calls)
  case Nil
  then show ?case by simp
next
  case (Cons p ps)
  show ?case
  proof (cases "client calls p")
    case None
    then have "snd (ask_all client calls (p # ps)) = calls @ take 1 (p # ps)" by simp
    then show ?thesis by (metis One_nat_def Suc_leI length_Cons zero_less_Suc)
  next
    case (Some r)
    from Cons.IH [of "calls @ [p]"] obtain n where
      n: "n \<le> length ps" "snd (ask_all client (calls @ [p]) ps) = (calls @ [p]) @ take n ps"
      by blast
    obtain x l where xl: "ask_all client (calls @ [p]) ps = (x, l)" by (cases "ask_all client (calls @ [p]) ps")
    have "snd (ask_all client calls (p # ps)) = calls @ take (Suc n) (p # ps)"
      using Some n(2) xl by (cases x) simp_all
    with n(1) show ?thesis by (metis Suc_le_mono length_Cons)
  qed
qed

lemma ask_all_Some:
  "ask_all client calls ps = (Some rs, l) \<Longrightarrow>
   l = calls @ ps \<and> length rs = length ps \<and>
   (\<forall>i<length ps. client (calls @ take i ps) (ps ! i) = Some (rs ! i))"
proof (induction ps arbitrary: calls rs)
  case Nil
  then show ?case by simp
next
  case (Cons p ps)
  from Cons.prems obtain r rs' where
    r: "client calls p = Some r" and rs': "ask_all client (calls @ [p]) ps = (Some rs', l)"
    and rs: "rs = r # rs'"
    by (auto split: option.splits prod.splits)
  note IH = Cons.IH [OF rs']
  have "\<forall>i<length (p # ps). client (calls @ take i (p # ps)) ((p # ps) ! i) = Some (rs ! i)"
  proof (intro allI impI)
    fix i assume i: "i < length (p # ps)"
    show "client (calls @ take i (p # ps)) ((p # ps) ! i) = Some (rs ! i)"
    proof (cases i)
      case 0
      then show ?thesis using r rs by simp
    next
      case (Suc j)
      then show ?thesis using IH i rs by simp
    qed
  qed
  then show ?case using IH rs by simp
qed

lemma ask_all_None:
  assumes "i < length ps" and "client (calls @ take i ps) (ps ! i) = None"
  shows "fst (ask_all client calls ps) = None"
proof (cases "ask_all client calls ps")
  case (Pair x l)
  show ?thesis
  proof (cases x)
    case None
    with Pair show ?thesis by simp
  next
    case (Some rs)
    with Pair ask_all_Some [of client calls ps rs l] assms show ?thesis by simp
  qed
qed

lemma ask_all_total:
  assumes "\<And>i. i < length ps \<Longrightarrow> client (calls @ take i ps) (ps ! i) \<noteq> None"
  shows "\<exists>rs. fst (ask_all client calls ps) = Some rs"
  using assms
proof (induction ps arbitrary: calls)
  case Nil
  then show ?case by simp
next
  case (Cons p ps)
  from Cons.prems [of 0] obtain r where r: "client calls p = Some r" by auto
  have "client ((calls @ [p]) @ take i ps) (ps ! i) \<noteq> None" if "i < length ps" for i
    using Cons.prems [of "Suc i"] that by simp
  from Cons.IH [OF this] obtain rs where "fst (ask_all client (calls @ [p]) ps) = Some rs"
    by blast
  with r show ?case by (cases "ask_all client (calls @ [p]) ps") simp
qed

lemma length_study_prompts: "length (study_prompts t c s d k) = 7"
  by (simp add: study_prompts_def study_suffixes_def)


lemma node_frame:
  assumes "node \<in> {generate_study_content, generate_mcqs, generate_true_false,
             generate_fill_blanks, generate_short_qa, generate_medium_qa, generate_long_qa}"
    and "node client calls st = (Inr st', calls')"
  shows "StudyMaterialState.theme st' = StudyMaterialState.theme st"
    and "StudyMaterialState.class_name st' = StudyMaterialState.class_name st"
    and "StudyMaterialState.subject st' = StudyMaterialState.subject st"
    and "user_docs st' = user_docs st" and "counts st' = counts st" and "prompt st' = prompt st"
  using assms
  by (auto simp: generate_study_content_def generate_mcqs_def generate_true_false_def
        generate_fill_blanks_def generate_short_qa_def generate_medium_qa_def
        generate_long_qa_def llm_invoke_def split: sum.splits option.splits)


section \<open>The study-material workflow: theorems\<close>

text \<open>
  C4. A record returned by \<open>generate_study_material\<close> binds each of the seven section
  keys \<open>study_content\<close>, \<open>mcqs\<close>, \<open>true_false\<close>, \<open>fill_blanks\<close>, \<open>short_qa\<close>,
  \<open>medium_qa\<close> and \<open>long_qa\<close> to a string: none of them is absent. The record type has
  no other section key. And a record is returned whenever each of the seven completion
  calls returns.
\<close>

theorem study_material_section_keys:
  "(fst (generate_study_material client calls t c s d k) = Inr r \<longrightarrow>
      study_content r \<noteq> None \<and> mcqs r \<noteq> None \<and> true_false r \<noteq> None \<and>
      fill_blanks r \<noteq> None \<and> short_qa r \<noteq> None \<and> medium_qa r \<noteq> None \<and> long_qa r \<noteq> None) \<and>
   ((\<forall>i<7. client (calls @ take i (study_prompts t c s d k)) (study_prompts t c s d k ! i) \<noteq> None) \<longrightarrow>
      (\<exists>r'. fst (generate_study_material client calls t c s d k) = Inr r'))"
proof -
  have keys: "study_content r \<noteq> None \<and> mcqs r \<noteq> None \<and> true_false r \<noteq> None \<and>
      fill_blanks r \<noteq> None \<and> short_qa r \<noteq> None \<and> medium_qa r \<noteq> None \<and> long_qa r \<noteq> None"
    if "fst (generate_study_material client calls t c s d k) = Inr r"
    using that unfolding generate_study_material_eq
    by (auto split: prod.splits option.splits)
  have total: "\<exists>r'. fst (generate_study_material client calls t c s d k) = Inr r'"
    if a: "\<forall>i<7. client (calls @ take i (study_prompts t c s d k)) (study_prompts t c s d k ! i) \<noteq> None"
  proof -
    from ask_all_total [of "study_prompts t c s d k" client calls] a
    obtain rs where "fst (ask_all client calls (study_prompts t c s d k)) = Some rs"
      by (auto simp: length_study_prompts)
    then show ?thesis
      unfolding generate_study_material_eq by (auto split: prod.splits option.splits)
  qed
  from keys total show ?thesis by blast
qed

theorem study_material_section_keys_witness:
  "fst (generate_study_material ok_client [] ''Force and Pressure'' ''Class 8'' ''Physics'' None None) =
     Inr ((initial_study_state ''Force and Pressure'' ''Class 8'' ''Physics'' None None)
            \<lparr>study_content := Some ''ok'', mcqs := Some ''ok'', true_false := Some ''ok'',
             fill_blanks := Some ''ok'', short_qa := Some ''ok'', medium_qa := Some ''ok'',
             long_qa := Some ''ok''\<rparr>) \<and>
   ok_client ([] @ take 0 (study_prompts ''Force and Pressure'' ''Class 8'' ''Physics'' None None))
     (study_prompts ''Force and Pressure'' ''Class 8'' ''Physics'' None None ! 0) \<noteq> None \<and>
   ok_client ([] @ take 6 (study_prompts ''Force and Pressure'' ''Class 8'' ''Physics'' None None))
     (study_prompts ''Force and Pressure'' ''Class 8'' ''Physics'' None None ! 6) \<noteq> None \<and>
   study_content ((initial_study_state ''Force and Pressure'' ''Class 8'' ''Physics'' None None)
            \<lparr>study_content := Some ''ok'', mcqs := Some ''ok'', true_false := Some ''ok'',
             fill_blanks := Some ''ok'', short_qa := Some ''ok'', medium_qa := Some ''ok'',
             long_qa := Some ''ok''\<rparr>) \<noteq> None \<and>
   long_qa ((initial_study_state ''Force and Pressure'' ''Class 8'' ''Physics'' None None)
            \<lparr>study_content := Some ''ok'', mcqs := Some ''ok'', true_false := Some ''ok'',
             fill_blanks := Some ''ok'', short_qa := Some ''ok'', medium_qa := Some ''ok'',
             long_qa := Some ''ok''\<rparr>) \<noteq> None"
proof -
  have h: "fst (generate_study_material ok_client [] ''Force and Pressure'' ''Class 8'' ''Physics'' None None) =
     Inr ((initial_study_state ''Force and Pressure'' ''Class 8'' ''Physics'' None None)
            \<lparr>study_content := Some ''ok'', mcqs := Some ''ok'', true_false := Some ''ok'',
             fill_blanks := Some ''ok'', short_qa := Some ''ok'', medium_qa := Some ''ok'',
             long_qa := Some ''ok''\<rparr>)"
    by (simp add: generate_study_material_eq study_prompts_list ok_client_def)
  have a: "\<forall>i<7. ok_client ([] @ take i (study_prompts ''Force and Pressure'' ''Class 8'' ''Physics'' None None))
            (study_prompts ''Force and Pressure'' ''Class 8'' ''Physics'' None None ! i) \<noteq> None"
    by (simp add: ok_client_def)
  from study_material_section_keys [where client = ok_client and calls = "[]"
      and t = "''Force and Pressure''" and c = "''Class 8''" and s = "''Physics''"
      and d = None and k = None
      and r = "(initial_study_state ''Force and Pressure'' ''Class 8'' ''Physics'' None None)
            \<lparr>study_content := Some ''ok'', mcqs := Some ''ok'', true_false := Some ''ok'',
             fill_blanks := Some ''ok'', short_qa := Some ''ok'', medium_qa := Some ''ok'',
             long_qa := Some ''ok''\<rparr>"] h a
  show ?thesis by (simp add: ok_client_def)
qed

text \<open>
  C5. If one of the seven completion calls raises (call number \<open>i\<close>, made after the
  \<open>i\<close> prompts before it), \<open>generate_study_material\<close> raises \<open>ServiceError\<close>: no record
  is returned.
\<close>

theorem study_material_aborts:
  assumes "i < 7" and "client (calls @ take i (study_prompts t c s d k)) (study_prompts t c s d k ! i) = None"
  shows "fst (generate_study_material client calls t c s d k) = Inl ServiceError"
proof -
  have "fst (ask_all client calls (study_prompts t c s d k)) = None"
    using ask_all_None [of i "study_prompts t c s d k" client calls] assms
    by (simp add: length_study_prompts)
  then show ?thesis
    unfolding generate_study_material_eq by (auto split: prod.splits option.splits)
qed

theorem study_material_aborts_witness:
  "(2::nat) < 7 \<and>
   failing_client 2 ([] @ take 2 (study_prompts ''Force and Pressure'' ''Class 8'' ''Physics'' None None))
     (study_prompts ''Force and Pressure'' ''Class 8'' ''Physics'' None None ! 2) = None \<and>
   fst (generate_study_material (failing_client 2) [] ''Force and Pressure'' ''Class 8'' ''Physics'' None None) =
     Inl ServiceError"
proof -
  have h: "failing_client 2 ([] @ take 2 (study_prompts ''Force and Pressure'' ''Class 8'' ''Physics'' None None))
     (study_prompts ''Force and Pressure'' ''Class 8'' ''Physics'' None None ! 2) = None"
    by (simp add: failing_client_def length_study_prompts)
  have l: "(2::nat) < 7" by simp
  from study_material_aborts [where i = 2 and client = "failing_client 2" and calls = "[]", OF l h] h
  show ?thesis by simp
qed

text \<open>
  C6. The edges of the study graph form one path from \<open>START\<close> through the seven nodes
  to \<open>END\<close>, each node with exactly one successor. A run sends the seven prompts of
  \<open>study_prompts\<close> in that order, one call per step, and stops at the first call that
  raises: the calls it makes are the first \<open>n\<close> of the seven. A run that returns a
  record has made all seven, and the text returned by call number \<open>i\<close> is the value of
  section number \<open>i\<close>.
\<close>

theorem study_workflow_linear_order:
  "successors study_graph START = [''generate_study_content''] \<and>
   successors study_graph ''generate_study_content'' = [''generate_mcqs''] \<and>
   successors study_graph ''generate_mcqs'' = [''generate_true_false''] \<and>
   successors study_graph ''generate_true_false'' = [''generate_fill_blanks''] \<and>
   successors study_graph ''generate_fill_blanks'' = [''generate_short_qa''] \<and>
   successors study_graph ''generate_short_qa'' = [''generate_medium_qa''] \<and>
   successors study_graph ''generate_medium_qa'' = [''generate_long_qa''] \<and>
   successors study_graph ''generate_long_qa'' = [END] \<and>
   (\<exists>n\<le>7. snd (generate_study_material client calls t c s d k) =
             calls @ take n (study_prompts t c s d k)) \<and>
   (fst (generate_study_material client calls t c s d k) = Inr r \<longrightarrow>
      snd (generate_study_material client calls t c s d k) = calls @ study_prompts t c s d k \<and>
      study_content r = client calls (study_prompts t c s d k ! 0) \<and>
      mcqs r = client (calls @ take 1 (study_prompts t c s d k)) (study_prompts t c s d k ! 1) \<and>
      true_false r = client (calls @ take 2 (study_prompts t c s d k)) (study_prompts t c s d k ! 2) \<and>
      fill_blanks r = client (calls @ take 3 (study_prompts t c s d k)) (study_prompts t c s d k ! 3) \<and>
      short_qa r = client (calls @ take 4 (study_prompts t c s d k)) (study_prompts t c s d k ! 4) \<and>
      medium_qa r = client (calls @ take 5 (study_prompts t c s d k)) (study_prompts t c s d k ! 5) \<and>
      long_qa r = client (calls @ take 6 (study_prompts t c s d k)) (study_prompts t c s d k ! 6))"
proof -
  let ?ps = "study_prompts t c s d k"
  have calls: "\<exists>n\<le>7. snd (generate_study_material client calls t c s d k) = calls @ take n ?ps"
  proof -
    from ask_all_calls [of ?ps client calls] obtain n where
      n: "n \<le> length ?ps" "snd (ask_all client calls ?ps) = calls @ take n ?ps" by blast
    have "snd (generate_study_material client calls t c s d k) = snd (ask_all client calls ?ps)"
      unfolding generate_study_material_eq by (auto split: prod.splits option.splits)
    with n show ?thesis by (auto simp: length_study_prompts)
  qed
  have ok: "snd (generate_study_material client calls t c s d k) = calls @ ?ps \<and>
      study_content r = client calls (?ps ! 0) \<and>
      mcqs r = client (calls @ take 1 ?ps) (?ps ! 1) \<and>
      true_false r = client (calls @ take 2 ?ps) (?ps ! 2) \<and>
      fill_blanks r = client (calls @ take 3 ?ps) (?ps ! 3) \<and>
      short_qa r = client (calls @ take 4 ?ps) (?ps ! 4) \<and>
      medium_qa r = client (calls @ take 5 ?ps) (?ps ! 5) \<and>
      long_qa r = client (calls @ take 6 ?ps) (?ps ! 6)"
    if r: "fst (generate_study_material client calls t c s d k) = Inr r"
  proof -
    obtain x l where xl: "ask_all client calls ?ps = (x, l)" by (cases "ask_all client calls ?ps")
    from r xl obtain rs where rs: "x = Some rs"
      unfolding generate_study_material_eq by (cases x) auto
    from ask_all_Some [of client calls ?ps rs l] xl rs
    have l: "l = calls @ ?ps"
      and sent: "\<And>i. i < 7 \<Longrightarrow> client (calls @ take i ?ps) (?ps ! i) = Some (rs ! i)"
      by (simp_all add: length_study_prompts)
    have "client calls (?ps ! 0) = Some (rs ! 0)"
      "client (calls @ take 1 ?ps) (?ps ! 1) = Some (rs ! 1)"
      "client (calls @ take 2 ?ps) (?ps ! 2) = Some (rs ! 2)"
      "client (calls @ take 3 ?ps) (?ps ! 3) = Some (rs ! 3)"
      "client (calls @ take 4 ?ps) (?ps ! 4) = Some (rs ! 4)"
      "client (calls @ take 5 ?ps) (?ps ! 5) = Some (rs ! 5)"
      "client (calls @ take 6 ?ps) (?ps ! 6) = Some (rs ! 6)"
      using sent [of 0] sent [of 1] sent [of 2] sent [of 3] sent [of 4] sent [of 5] sent [of 6]
      by simp_all
    moreover have "generate_study_material client calls t c s d k =
       (Inr ((initial_study_state t c s d k)
                  \<lparr>study_content := Some (rs ! 0), mcqs := Some (rs ! 1),
                   true_false := Some (rs ! 2), fill_blanks := Some (rs ! 3),
                   short_qa := Some (rs ! 4), medium_qa := Some (rs ! 5),
                   long_qa := Some (rs ! 6)\<rparr>), calls @ ?ps)"
      unfolding generate_study_material_eq using xl rs l by simp
    ultimately show ?thesis using r by auto
  qed
  from calls ok show ?thesis by (simp only: successors_study) blast
qed

theorem study_workflow_linear_order_witness:
  "snd (generate_study_material ok_client [] ''Force and Pressure'' ''Class 8'' ''Physics'' None None) =
     study_prompts ''Force and Pressure'' ''Class 8'' ''Physics'' None None \<and>
   mcqs ((initial_study_state ''Force and Pressure'' ''Class 8'' ''Physics'' None None)
            \<lparr>study_content := Some ''ok'', mcqs := Some ''ok'', true_false := Some ''ok'',
             fill_blanks := Some ''ok'', short_qa := Some ''ok'', medium_qa := Some ''ok'',
             long_qa := Some ''ok''\<rparr>) =
     ok_client (take 1 (study_prompts ''Force and Pressure'' ''Class 8'' ''Physics'' None None))
       (study_prompts ''Force and Pressure'' ''Class 8'' ''Physics'' None None ! 1)"
proof -
  have h: "fst (generate_study_material ok_client [] ''Force and Pressure'' ''Class 8'' ''Physics'' None None) =
     Inr ((initial_study_state ''Force and Pressure'' ''Class 8'' ''Physics'' None None)
            \<lparr>study_content := Some ''ok'', mcqs := Some ''ok'', true_false := Some ''ok'',
             fill_blanks := Some ''ok'', short_qa := Some ''ok'', medium_qa := Some ''ok'',
             long_qa := Some ''ok''\<rparr>)"
    by (simp add: generate_study_material_eq study_prompts_list ok_client_def)
  from study_workflow_linear_order [where client = ok_client and calls = "[]"
      and t = "''Force and Pressure''" and c = "''Class 8''" and s = "''Physics''"
      and d = None and k = None
      and r = "(initial_study_state ''Force and Pressure'' ''Class 8'' ''Physics'' None None)
            \<lparr>study_content := Some ''ok'', mcqs := Some ''ok'', true_false := Some ''ok'',
             fill_blanks := Some ''ok'', short_qa := Some ''ok'', medium_qa := Some ''ok'',
             long_qa := Some ''ok''\<rparr>"] h
  show ?thesis by (simp add: ok_client_def)
qed

text \<open>
  C10. A record returned by \<open>generate_study_material\<close> holds the request as it was
  given: \<open>theme\<close>, \<open>class_name\<close>, \<open>subject\<close>, \<open>user_docs\<close> (the empty list when omitted)
  and \<open>counts\<close> (the empty dict when omitted); \<open>prompt\<close> is still the empty string. Each
  of the seven nodes returns a state with the same request fields as the state it
  was given.
\<close>

theorem study_material_frame:
  "(fst (generate_study_material client calls t c s d k) = Inr r \<longrightarrow>
      StudyMaterialState.theme r = Some t \<and> StudyMaterialState.class_name r = Some c \<and>
      StudyMaterialState.subject r = Some s \<and>
      user_docs r = Some (case d of None \<Rightarrow> [] | Some ds \<Rightarrow> ds) \<and>
      counts r = Some (case k of None \<Rightarrow> [] | Some cs \<Rightarrow> cs) \<and>
      prompt r = Some '''') \<and>
   (\<forall>node \<in> snd ` set (fst study_graph). \<forall>client' calls' calls'' st st'.
      node client' calls' st = (Inr st', calls'') \<longrightarrow>
        StudyMaterialState.theme st' = StudyMaterialState.theme st \<and>
        StudyMaterialState.class_name st' = StudyMaterialState.class_name st \<and>
        StudyMaterialState.subject st' = StudyMaterialState.subject st \<and>
        user_docs st' = user_docs st \<and> counts st' = counts st \<and> prompt st' = prompt st)"
proof -
  have run: "StudyMaterialState.theme r = Some t \<and> StudyMaterialState.class_name r = Some c \<and>
      StudyMaterialState.subject r = Some s \<and>
      user_docs r = Some (case d of None \<Rightarrow> [] | Some ds \<Rightarrow> ds) \<and>
      counts r = Some (case k of None \<Rightarrow> [] | Some cs \<Rightarrow> cs) \<and>
      prompt r = Some ''''"
    if "fst (generate_study_material client calls t c s d k) = Inr r"
    using that unfolding generate_study_material_eq
    by (auto simp: initial_study_state_def split: prod.splits option.splits)
  have nodes: "\<forall>node \<in> snd ` set (fst study_graph). \<forall>client' calls' calls'' st st'.
      node client' calls' st = (Inr st', calls'') \<longrightarrow>
        StudyMaterialState.theme st' = StudyMaterialState.theme st \<and>
        StudyMaterialState.class_name st' = StudyMaterialState.class_name st \<and>
        StudyMaterialState.subject st' = StudyMaterialState.subject st \<and>
        user_docs st' = user_docs st \<and> counts st' = counts st \<and> prompt st' = prompt st"
    by (auto simp: study_graph_def build_study_graph_def node_frame)
  from run nodes show ?thesis by blast
qed

theorem study_material_frame_witness:
  "generate_mcqs \<in> snd ` set (fst study_graph) \<and>
   StudyMaterialState.theme ((initial_study_state ''Force and Pressure'' ''Class 8'' ''Physics'' None None)
            \<lparr>study_content := Some ''ok'', mcqs := Some ''ok'', true_false := Some ''ok'',
             fill_blanks := Some ''ok'', short_qa := Some ''ok'', medium_qa := Some ''ok'',
             long_qa := Some ''ok''\<rparr>) = Some ''Force and Pressure'' \<and>
   user_docs ((initial_study_state ''Force and Pressure'' ''Class 8'' ''Physics'' None None)
            \<lparr>study_content := Some ''ok'', mcqs := Some ''ok'', true_false := Some ''ok'',
             fill_blanks := Some ''ok'', short_qa := Some ''ok'', medium_qa := Some ''ok'',
             long_qa := Some ''ok''\<rparr>) = Some []"
proof -
  have h: "fst (generate_study_material ok_client [] ''Force and Pressure'' ''Class 8'' ''Physics'' None None) =
     Inr ((initial_study_state ''Force and Pressure'' ''Class 8'' ''Physics'' None None)
            \<lparr>study_content := Some ''ok'', mcqs := Some ''ok'', true_false := Some ''ok'',
             fill_blanks := Some ''ok'', short_qa := Some ''ok'', medium_qa := Some ''ok'',
             long_qa := Some ''ok''\<rparr>)"
    by (simp add: generate_study_material_eq study_prompts_list ok_client_def)
  have m: "generate_mcqs \<in> snd ` set (fst study_graph)"
    by (simp add: study_graph_def build_study_graph_def)
  from study_material_frame [where client = ok_client and calls = "[]"
      and t = "''Force and Pressure''" and c = "''Class 8''" and s = "''Physics''"
      and d = None and k = None
      and r = "(initial_study_state ''Force and Pressure'' ''Class 8'' ''Physics'' None None)
            \<lparr>study_content := Some ''ok'', mcqs := Some ''ok'', true_false := Some ''ok'',
             fill_blanks := Some ''ok'', short_qa := Some ''ok'', medium_qa := Some ''ok'',
             long_qa := Some ''ok''\<rparr>"] h m
  show ?thesis by simp
qed


section \<open>The test workflow and the prompt builders\<close>

lemma successors_test:
  "successors test_graph START = [''generate_test_questions'']"
  "successors test_graph ''generate_test_questions'' = [END]"
  by (simp_all add: successors_def test_graph_def build_test_graph_def START_def END_def)

lemma nodes_test:
  "map_of (fst test_graph) ''generate_test_questions'' = Some generate_test_questions"
  by (simp add: test_graph_def build_test_graph_def)

lemma invoke_test_graph:
  "invoke test_graph client calls st = run_nodes [generate_test_questions] client calls st"
  unfolding invoke_def recursion_limit_def
  by (simp add: numeral_eq_Suc successors_test nodes_test END_def
           split: prod.splits sum.splits)

lemma generate_test_eq:
  "generate_test client calls t c s n1 n2 n3 n4 n5 n6 =
     (case client calls (generate_test_prompt t c s n1 n2 n3 n4 n5 n6) of
        None \<Rightarrow> (Inl ServiceError, calls @ [generate_test_prompt t c s n1 n2 n3 n4 n5 n6])
      | Some text \<Rightarrow>
          (Inr \<lparr>theme = Some t, class_name = Some c, subject = Some s,
                num_mcq = Some n1, num_true_false = Some n2, num_fill_blanks = Some n3,
                num_short_qa = Some n4, num_medium_qa = Some n5, num_long_qa = Some n6,
                questions = Some (parse_questions text), user_answers = Some (JObject []),
                corrections = Some (JObject [])\<rparr>,
           calls @ [generate_test_prompt t c s n1 n2 n3 n4 n5 n6]))"
  unfolding generate_test_def invoke_test_graph
  by (simp add: generate_test_questions_def test_prompt_of_def getitem_def llm_invoke_def
           split: option.splits)

lemma find_first_append: "find_first sub (a @ sub @ b) \<noteq> None"
proof (induction a)
  case Nil
  have "take (length sub) (sub @ b) = sub" by simp
  then show ?case by (cases "sub @ b") (auto simp: py_startswith_def)
next
  case (Cons x a)
  then show ?case by auto
qed

lemma py_in_Cons: "py_in sub (c # cs) = (py_startswith (c # cs) sub \<or> py_in sub cs)"
  by (simp add: py_in_def)






text \<open>
  C7. The prompt builders are functions of their arguments: equal arguments give
  equal prompts. At the boundary with the completion service the same holds whatever
  the service answers and whatever was sent before: \<open>generate_test\<close> sends the one
  prompt \<open>generate_test_prompt\<close> builds from the request, and
  \<open>generate_study_material\<close> sends the first \<open>n\<close> prompts of \<open>study_prompts\<close>, which
  \<open>generate_prompt\<close> builds from the request.
\<close>

theorem prompt_builders_deterministic:
  "(t = t' \<and> c = c' \<and> s = s' \<and> d = d' \<and> k = k' \<longrightarrow>
      generate_prompt t c s d k = generate_prompt t' c' s' d' k') \<and>
   (t = t' \<and> c = c' \<and> s = s' \<and> n1 = n1' \<and> n2 = n2' \<and> n3 = n3' \<and> n4 = n4' \<and> n5 = n5' \<and> n6 = n6' \<longrightarrow>
      generate_test_prompt t c s n1 n2 n3 n4 n5 n6 = generate_test_prompt t' c' s' n1' n2' n3' n4' n5' n6') \<and>
   (\<forall>client calls. snd (generate_test client calls t c s n1 n2 n3 n4 n5 n6) =
      calls @ [generate_test_prompt t c s n1 n2 n3 n4 n5 n6]) \<and>
   (\<forall>client calls. \<exists>n\<le>7. snd (generate_study_material client calls t c s ud cs) =
      calls @ take n (study_prompts t c s ud cs))"
proof -
  have "snd (generate_test client calls t c s n1 n2 n3 n4 n5 n6) =
      calls @ [generate_test_prompt t c s n1 n2 n3 n4 n5 n6]" for client calls
    by (simp add: generate_test_eq split: option.splits)
  moreover have "\<exists>n\<le>7. snd (generate_study_material client calls t c s ud cs) =
      calls @ take n (study_prompts t c s ud cs)"
    for client calls
  proof -
    from ask_all_calls [of "study_prompts t c s ud cs" client calls] obtain n where
      n: "n \<le> length (study_prompts t c s ud cs)"
         "snd (ask_all client calls (study_prompts t c s ud cs)) = calls @ take n (study_prompts t c s ud cs)"
      by blast
    have "snd (generate_study_material client calls t c s ud cs) =
          snd (ask_all client calls (study_prompts t c s ud cs))"
      unfolding generate_study_material_eq by (auto split: prod.splits option.splits)
    with n show ?thesis unfolding length_study_prompts by metis
  qed
  ultimately show ?thesis by blast
qed

theorem prompt_builders_deterministic_witness:
  "generate_prompt ''Force and Pressure'' ''Class 8'' ''Physics'' [] [(ustr ''mcq'', 6)] =
   generate_prompt ''Force and Pressure'' ''Class 8'' ''Physics'' [] [(ustr ''mcq'', 6)] \<and>
   generate_test_prompt ''Force and Pressure'' ''Class 8'' ''Physics'' 5 5 5 3 2 1 =
   generate_test_prompt ''Force and Pressure'' ''Class 8'' ''Physics'' 5 5 5 3 2 1 \<and>
   snd (generate_test ok_client [] ''Force and Pressure'' ''Class 8'' ''Physics'' 5 5 5 3 2 1) =
   snd (generate_test (failing_client 0) [] ''Force and Pressure'' ''Class 8'' ''Physics'' 5 5 5 3 2 1)"
  using prompt_builders_deterministic [where t = "''Force and Pressure''" and t' = "''Force and Pressure''"
      and c = "''Class 8''" and c' = "''Class 8''" and s = "''Physics''" and s' = "''Physics''"
      and d = "[]" and d' = "[]" and k = "[(ustr ''mcq'', 6)]" and k' = "[(ustr ''mcq'', 6)]"
      and ?n1.0 = 5 and n1' = 5 and ?n2.0 = 5 and n2' = 5 and ?n3.0 = 5 and n3' = 5
      and ?n4.0 = 3 and n4' = 3 and ?n5.0 = 2 and n5' = 2 and ?n6.0 = 1 and n6' = 1]
  by simp





section \<open>The response parser: the choice of the text to decode\<close>

lemma startswith_length: "py_startswith s sub \<Longrightarrow> length sub \<le> length s"
proof -
  assume "py_startswith s sub"
  then have "length (take (length sub) s) = length sub" by (simp add: py_startswith_def)
  then show ?thesis by simp
qed

lemma find_first_bound:
  "find_first sub s = Some i \<Longrightarrow> i + length sub \<le> length s"
proof (induction s arbitrary: i)
  case Nil
  then show ?case by (cases "sub = []") simp_all
next
  case (Cons c cs)
  show ?case
  proof (cases "py_startswith (c # cs) sub")
    case True
    with Cons.prems have "i = 0" by simp
    with startswith_length [OF True] show ?thesis by simp
  next
    case False
    with Cons.prems obtain j where "find_first sub cs = Some j" "i = Suc j" by auto
    with Cons.IH [of j] show ?thesis by simp
  qed
qed

lemma slice_bound_nat: "a \<le> n \<Longrightarrow> slice_bound n (int a) = a"
  by (simp add: slice_bound_def)

lemma slice_bound_minus_one: "slice_bound n (- 1) = n - 1"
  by (simp add: slice_bound_def)

lemma py_slice_to_last:
  "a \<le> length s \<Longrightarrow> py_slice s (int a) (- 1) = butlast (drop a s)"
  by (simp add: py_slice_def slice_bound_nat slice_bound_minus_one butlast_conv_take)

lemma py_find_from_start:
  "find_first sub s = Some i \<Longrightarrow> py_find s sub 0 = int i"
  by (simp add: py_find_def)

lemma py_find_none:
  "a \<le> length s \<Longrightarrow> find_first sub (drop a s) = None \<Longrightarrow> py_find s sub (int a) = - 1"
  by (simp add: py_find_def)

text \<open>
  C9. When the completion holds \<open>```json\<close> (first at index \<open>i\<close>) and no \<open>```\<close> after
  it, the search for the closing fence returns \<open>-1\<close>, and the text handed to the
  decoder is the text after \<open>```json\<close> without its last character, stripped; this holds
  in \<open>generate_test_questions\<close> and in \<open>evaluate_answers\<close>.
\<close>

theorem unclosed_fence_drops_last_character:
  assumes "find_first ''```json'' response = Some i"
    and "find_first ''```'' (drop (i + 7) response) = None"
  shows "py_in ''```json'' response \<and>
         py_find response ''```'' (py_find response ''```json'' 0 + 7) = - 1 \<and>
         select_json_str response = py_strip (butlast (drop (i + 7) response)) \<and>
         parse_questions response =
           (case json_loads (py_strip (butlast (drop (i + 7) response))) of
              Inr obj \<Rightarrow> obj
            | Inl e \<Rightarrow> JObject [(ustr ''raw_response'', JString (ustr response))]) \<and>
         parse_corrections response =
           (case json_loads (py_strip (butlast (drop (i + 7) response))) of
              Inr obj \<Rightarrow> obj
            | Inl e \<Rightarrow> JObject [(ustr ''raw_feedback'', JString (ustr response))])"
proof -
  from find_first_bound [OF assms(1)] have len: "i + 7 \<le> length response" by simp
  have in_text: "py_in ''```json'' response" using assms(1) by (simp add: py_in_def)
  have start: "py_find response ''```json'' 0 + 7 = int (i + 7)"
    using py_find_from_start [OF assms(1)] by simp
  have no_end: "py_find response ''```'' (py_find response ''```json'' 0 + 7) = - 1"
    unfolding start by (rule py_find_none [OF len assms(2)])
  have "select_json_str response =
          py_strip (py_slice response (py_find response ''```json'' 0 + 7)
                      (py_find response ''```'' (py_find response ''```json'' 0 + 7)))"
    unfolding select_json_str_def Let_def using in_text by (rule if_P)
  also have "\<dots> = py_strip (py_slice response (int (i + 7)) (- 1))"
    unfolding no_end unfolding start by (rule refl)
  also have "\<dots> = py_strip (butlast (drop (i + 7) response))"
    unfolding py_slice_to_last [OF len] by (rule refl)
  finally have sel: "select_json_str response = py_strip (butlast (drop (i + 7) response))" .
  have pq: "parse_questions response =
           (case json_loads (py_strip (butlast (drop (i + 7) response))) of
              Inr obj \<Rightarrow> obj
            | Inl e \<Rightarrow> JObject [(ustr ''raw_response'', JString (ustr response))])"
    unfolding parse_questions_def sel by (rule refl)
  have pc: "parse_corrections response =
           (case json_loads (py_strip (butlast (drop (i + 7) response))) of
              Inr obj \<Rightarrow> obj
            | Inl e \<Rightarrow> JObject [(ustr ''raw_feedback'', JString (ustr response))])"
    unfolding parse_corrections_def sel by (rule refl)
  from in_text no_end sel pq pc show ?thesis by (intro conjI)
qed

theorem unclosed_fence_drops_last_character_witness:
  "find_first ''```json'' ''```json [1]x'' = Some 0 \<and>
   find_first ''```'' (drop (0 + 7) ''```json [1]x'') = None \<and>
   select_json_str ''```json [1]x'' = ''[1]'' \<and>
   parse_questions ''```json [1]x'' = JArray [JInt 1]"
proof -
  have a: "find_first ''```json'' ''```json [1]x'' = Some 0" by code_simp
  have b: "find_first ''```'' (drop (0 + 7) ''```json [1]x'') = None" by code_simp
  have c: "py_strip (butlast (drop (0 + 7) ''```json [1]x'')) = ''[1]''" by code_simp
  have d: "json_loads ''[1]'' = Inr (JArray [JInt 1])" by code_simp
  have e: "select_json_str ''```json [1]x'' = ''[1]'' \<and>
           parse_questions ''```json [1]x'' = JArray [JInt 1]"
    using unclosed_fence_drops_last_character [OF a b] unfolding c d by simp
  from a b e show ?thesis by (intro conjI) simp_all
qed


section \<open>The decoder on a text without an opening brace\<close>








lemma scan_once_Nil: "scan_once [] = None"
  by (subst scan_once.simps) simp

lemma scan_once_quote:
  "scan_once (CHR 0x22 # cs) =
     (case scanstring cs of None \<Rightarrow> None | Some (str, rest) \<Rightarrow> Some (JString str, rest))"
  by (subst scan_once.simps) simp

lemma scan_once_brace:
  "scan_once (CHR ''{'' # cs) =
     (case skip_ws cs of
        [] \<Rightarrow> None
      | d # ds \<Rightarrow>
          if d = CHR ''}'' then Some (JObject [], ds)
          else (case parse_object (d # ds) of
                  None \<Rightarrow> None
                | Some (pairs, rest) \<Rightarrow> Some (JObject (dict pairs), rest)))"
  by (subst scan_once.simps) simp

lemma scan_once_bracket:
  "scan_once (CHR ''['' # cs) =
     (case skip_ws cs of
        [] \<Rightarrow> None
      | d # ds \<Rightarrow>
          if d = CHR '']'' then Some (JArray [], ds)
          else (case parse_array (d # ds) of
                  None \<Rightarrow> None
                | Some (vals, rest) \<Rightarrow> Some (JArray vals, rest)))"
  by (subst scan_once.simps) simp

lemma scan_once_other:
  "c \<noteq> CHR 0x22 \<Longrightarrow> c \<noteq> CHR ''{'' \<Longrightarrow> c \<noteq> CHR ''['' \<Longrightarrow>
   scan_once (c # cs) =
     (if py_startswith (c # cs) ''null'' then Some (JNull, drop 4 (c # cs))
      else if py_startswith (c # cs) ''true'' then Some (JBool True, drop 4 (c # cs))
      else if py_startswith (c # cs) ''false'' then Some (JBool False, drop 5 (c # cs))
      else if py_startswith (c # cs) ''NaN'' then Some (JFloat ''NaN'', drop 3 (c # cs))
      else if py_startswith (c # cs) ''Infinity'' then Some (JFloat ''Infinity'', drop 8 (c # cs))
      else if py_startswith (c # cs) ''-Infinity'' then Some (JFloat ''-Infinity'', drop 9 (c # cs))
      else match_number (c # cs))"
  by (subst scan_once.simps) simp


lemma parse_array_Some:
  assumes "parse_array s = Some (vs, r)"
  shows "\<exists>v rest d ds. scan_once s = Some (v, rest) \<and> length rest < length s \<and>
    skip_ws rest = d # ds \<and>
    ((d = CHR '']'' \<and> vs = [v] \<and> r = ds) \<or>
     (d = CHR '','' \<and> (\<exists>vs'. parse_array (skip_ws ds) = Some (vs', r) \<and> vs = v # vs')))"
  using assms [unfolded parse_array.simps [of s]]
  by (auto split: option.splits if_splits list.splits)

lemma parse_object_Some:
  assumes "parse_object s = Some (ps, r)"
  shows "\<exists>t key r1 r2 v r3 d ds. s = CHR 0x22 # t \<and> scanstring t = Some (key, r1) \<and>
    skip_ws r1 = CHR '':'' # r2 \<and> scan_once (skip_ws r2) = Some (v, r3) \<and> length r3 < length s \<and>
    skip_ws r3 = d # ds \<and>
    ((d = CHR ''}'' \<and> ps = [(key, v)] \<and> r = ds) \<or>
     (d = CHR '','' \<and>
      (\<exists>ps'. parse_object (skip_ws ds) = Some (ps', r) \<and> ps = (key, v) # ps')))"
  using assms [unfolded parse_object.simps [of s]]
  by (auto split: option.splits if_splits list.splits)






lemma json_loads_error: "json_loads s = Inl e \<Longrightarrow> e = JSONDecodeError"
  by (auto simp: json_loads_def split: option.splits if_splits)





section \<open>Every value consumes text\<close>

lemma length_scan_int_part: "scan_int_part s = Some (ds, r) \<Longrightarrow> length r < length s"
  by (auto simp: scan_int_part_def less_Suc_eq_le length_dropWhile_le split: list.splits if_splits)

lemma length_scan_frac: "length (snd (scan_frac s)) \<le> length s"
proof -
  have "length (dropWhile is_digit ds) \<le> Suc (Suc (length ds))" for ds
    using length_dropWhile_le [of is_digit ds] by simp
  then show ?thesis
    by (auto simp: scan_frac_def split: list.splits if_splits)
qed

lemma length_scan_exp: "length (snd (scan_exp s)) \<le> length s"
proof (cases s)
  case Nil
  then show ?thesis by (simp add: scan_exp_def)
next
  case (Cons e t)
  have "length (dropWhile is_digit (drop n t)) \<le> Suc (length t)" for n
    using length_dropWhile_le [of is_digit "drop n t"] by simp
  then show ?thesis
    using Cons by (auto simp: scan_exp_def Let_def)
qed

lemma length_match_number:
  assumes "match_number s = Some (v, r)"
  shows "length r < length s"
proof -
  define s1 where "s1 = (if (case s of [] \<Rightarrow> False | c # cs \<Rightarrow> c = CHR ''-'') then tl s else s)"
  have s1: "length s1 \<le> length s" by (simp add: s1_def)
  from assms obtain ds s2 where ip: "scan_int_part s1 = Some (ds, s2)"
    by (auto simp: match_number_def Let_def s1_def split: option.splits)
  have r: "r = snd (scan_exp (snd (scan_frac s2)))"
    using assms ip
    by (auto simp: match_number_def Let_def s1_def split: option.splits prod.splits if_splits)
  show ?thesis
    unfolding r
    using length_scan_exp [of "snd (scan_frac s2)"] length_scan_frac [of s2]
      length_scan_int_part [OF ip] s1
    by linarith
qed

lemma scan_length:
  "scan_once s = Some (v, r) \<Longrightarrow> length r < length s"
  "parse_array s = Some (vs, r) \<Longrightarrow> length r < length s"
  "parse_object s = Some (ps, r) \<Longrightarrow> length r < length s"
proof (induction s and s and s arbitrary: v r and vs r and ps r
       rule: scan_once_parse_array_parse_object.induct)
  case (1 s)
  show ?case
  proof (cases s)
    case Nil
    with "1.prems" show ?thesis by (simp add: scan_once_Nil)
  next
    case (Cons c cs)
    consider (quote) "c = CHR 0x22" | (brace) "c \<noteq> CHR 0x22" "c = CHR ''{''"
      | (bracket) "c \<noteq> CHR 0x22" "c \<noteq> CHR ''{''" "c = CHR ''[''"
      | (other) "c \<noteq> CHR 0x22" "c \<noteq> CHR ''{''" "c \<noteq> CHR ''[''"
      by blast
    then show ?thesis
    proof cases
      case quote
      with "1.prems" Cons obtain str where "scanstring cs = Some (str, r)"
        by (auto simp: scan_once_quote split: option.splits)
      with scanstring_length [of cs str r] Cons show ?thesis by simp
    next
      case brace
      from "1.prems" Cons brace obtain d ds where sk: "skip_ws cs = d # ds"
        and alt: "(d = CHR ''}'' \<and> r = ds) \<or>
                  (d \<noteq> CHR ''}'' \<and> (\<exists>pairs. parse_object (d # ds) = Some (pairs, r)))"
        by (auto simp: scan_once_brace split: list.splits if_splits option.splits)
      from alt have "length r \<le> length (d # ds)"
      proof
        assume "d = CHR ''}'' \<and> r = ds"
        then show ?thesis by simp
      next
        assume a: "d \<noteq> CHR ''}'' \<and> (\<exists>pairs. parse_object (d # ds) = Some (pairs, r))"
        then obtain pairs where "parse_object (d # ds) = Some (pairs, r)" by blast
        from "1.IH"(1) [OF Cons brace(1) brace(2) sk _ this] a show ?thesis by simp
      qed
      with skip_ws_length [of cs] sk Cons show ?thesis by simp
    next
      case bracket
      from "1.prems" Cons bracket obtain d ds where sk: "skip_ws cs = d # ds"
        and alt: "(d = CHR '']'' \<and> r = ds) \<or>
                  (d \<noteq> CHR '']'' \<and> (\<exists>vals. parse_array (d # ds) = Some (vals, r)))"
        by (auto simp: scan_once_bracket split: list.splits if_splits option.splits)
      from alt have "length r \<le> length (d # ds)"
      proof
        assume "d = CHR '']'' \<and> r = ds"
        then show ?thesis by simp
      next
        assume a: "d \<noteq> CHR '']'' \<and> (\<exists>vals. parse_array (d # ds) = Some (vals, r))"
        then obtain vals where "parse_array (d # ds) = Some (vals, r)" by blast
        from "1.IH"(2) [OF Cons bracket(1) bracket(2) bracket(3) sk _ this] a show ?thesis by simp
      qed
      with skip_ws_length [of cs] sk Cons show ?thesis by simp
    next
      case other
      show ?thesis
      proof (cases "match_number (c # cs) = Some (v, r)")
        case True
        from length_match_number [OF True] Cons show ?thesis by simp
      next
        case False
        with "1.prems" Cons show ?thesis
          unfolding Cons scan_once_other [OF other]
          by (auto split: if_splits)
      qed
    qed
  qed
next
  case (2 s)
  from parse_array_Some [OF "2.prems"] obtain v rest d ds where
    so: "scan_once s = Some (v, rest)" and len: "length rest < length s"
    and sk: "skip_ws rest = d # ds"
    and alt: "(d = CHR '']'' \<and> vs = [v] \<and> r = ds) \<or>
     (d = CHR '','' \<and> (\<exists>vs'. parse_array (skip_ws ds) = Some (vs', r) \<and> vs = v # vs'))"
    by blast
  have ds: "length (skip_ws ds) < length rest" by (rule skip_ws_Cons_length [OF sk])
  have ds': "length ds < length rest" using skip_ws_length [of rest] sk by simp
  from alt show ?case
  proof
    assume "d = CHR '']'' \<and> vs = [v] \<and> r = ds"
    with ds' len show ?thesis by simp
  next
    assume a: "d = CHR '','' \<and> (\<exists>vs'. parse_array (skip_ws ds) = Some (vs', r) \<and> vs = v # vs')"
    then obtain vs' where v: "parse_array (skip_ws ds) = Some (vs', r)" by blast
    from a have "d \<noteq> CHR '']''" by simp
    from "2.IH"(2) [OF so refl len sk this _ v] a ds len show ?thesis by simp
  qed
next
  case (3 s)
  from parse_object_Some [OF "3.prems"] obtain t key r1 r2 v r3 d ds where
    s: "s = CHR 0x22 # t" and ss: "scanstring t = Some (key, r1)"
    and sk1: "skip_ws r1 = CHR '':'' # r2" and so: "scan_once (skip_ws r2) = Some (v, r3)"
    and len: "length r3 < length s" and sk3: "skip_ws r3 = d # ds"
    and alt: "(d = CHR ''}'' \<and> ps = [(key, v)] \<and> r = ds) \<or>
     (d = CHR '','' \<and> (\<exists>ps'. parse_object (skip_ws ds) = Some (ps', r) \<and> ps = (key, v) # ps'))"
    by blast
  have ds: "length (skip_ws ds) < length r3" by (rule skip_ws_Cons_length [OF sk3])
  have ds': "length ds < length r3" using skip_ws_length [of r3] sk3 by simp
  from alt show ?case
  proof
    assume "d = CHR ''}'' \<and> ps = [(key, v)] \<and> r = ds"
    with ds' len show ?thesis by simp
  next
    assume a: "d = CHR '','' \<and> (\<exists>ps'. parse_object (skip_ws ds) = Some (ps', r) \<and> ps = (key, v) # ps')"
    then obtain ps' where p: "parse_object (skip_ws ds) = Some (ps', r)" by blast
    from a have "d \<noteq> CHR ''}''" by simp
    from "3.IH"(2) [OF s _ ss refl sk1 _ so refl len sk3 this _ p] a ds len show ?thesis by simp
  qed
qed

text \<open>
  So the test \<open>length rest < length s\<close> of the two loops never fails: the loops satisfy
  the equations without it.
\<close>

lemma parse_array_unguarded:
  "parse_array s =
     (case scan_once s of
        None \<Rightarrow> None
      | Some (val, rest) \<Rightarrow>
          (case skip_ws rest of
             [] \<Rightarrow> None
           | d # ds \<Rightarrow>
               if d = CHR '']'' then Some ([val], ds)
               else if d = CHR '','' then
                 (case parse_array (skip_ws ds) of
                    None \<Rightarrow> None
                  | Some (vals, rest') \<Rightarrow> Some (val # vals, rest'))
               else None))"
proof (cases "scan_once s")
  case None
  then show ?thesis by (subst parse_array.simps) simp
next
  case (Some a)
  obtain val rest where a: "a = (val, rest)" by (cases a)
  from scan_length(1) [of s val rest] Some a have "length rest < length s" by simp
  with Some a show ?thesis by (subst parse_array.simps) simp
qed

lemma parse_object_unguarded:
  "parse_object s =
     (case s of
        [] \<Rightarrow> None
      | q # t \<Rightarrow>
          if q \<noteq> CHR 0x22 then None
          else (case scanstring t of
                  None \<Rightarrow> None
                | Some (key, r1) \<Rightarrow>
                    (case skip_ws r1 of
                       [] \<Rightarrow> None
                     | c # r2 \<Rightarrow>
                         if c \<noteq> CHR '':'' then None
                         else (case scan_once (skip_ws r2) of
                                 None \<Rightarrow> None
                               | Some (val, r3) \<Rightarrow>
                                   (case skip_ws r3 of
                                      [] \<Rightarrow> None
                                    | d # ds \<Rightarrow>
                                        if d = CHR ''}'' then Some ([(key, val)], ds)
                                        else if d = CHR '','' then
                                          (case parse_object (skip_ws ds) of
                                             None \<Rightarrow> None
                                           | Some (pairs, rest') \<Rightarrow>
                                               Some ((key, val) # pairs, rest'))
                                        else None)))))"
proof -
  have g: "length r3 < length (q # t)"
    if "scanstring t = Some (key, r1)" "skip_ws r1 = c # r2" "scan_once (skip_ws r2) = Some (val, r3)"
    for q t key r1 c r2 val r3
  proof -
    from scan_length(1) [OF that(3)] have "length r3 < length (skip_ws r2)" .
    also have "\<dots> < length r1" by (rule skip_ws_Cons_length [OF that(2)])
    also have "\<dots> < length t" by (rule scanstring_length [OF that(1)])
    finally show ?thesis by simp
  qed
  show ?thesis
    by (subst parse_object.simps)
       (auto split: list.splits option.splits dest: g)
qed


section \<open>The decoder on the output of the encoder\<close>


lemma of_char_lits:
  "of_char (CHR 0x22) = (34::nat)" "of_char (CHR 0x5C) = (92::nat)" "of_char (CHR ''u'') = (117::nat)"
  by simp_all





declare scanstring.simps [simp del]







































































section \<open>The response parser on a JSON object between other text\<close>







end
